theory Spec2Isabelle
  imports Complex_Main
begin

section \<open>Numbers\<close>

text \<open>
  The application computes with JavaScript numbers. A number is modelled as an exact
  rational or one of the three special values of IEEE arithmetic, which is what division
  by zero produces. Finite results are exact (rounding to the nearest double is not
  modelled, so a digit that depends on that rounding is not decided here), the decimal
  constants of the source are the fractions they denote, and zero is the positive zero
  (a stored zero is always written as 0).

  A slot that is declared to hold a number can also hold \<open>null\<close>: JSON has no notation
  for \<open>NaN\<close> and the infinities, \<open>JSON.stringify\<close> writes \<open>null\<close> for them, and that is
  what is read back. In arithmetic and in comparisons \<open>null\<close> is converted to 0. It is
  not a number: the result of an arithmetic operation is never \<open>null\<close>, and calling a
  method on it raises a type error.
\<close>

datatype jsnum = Fin rat | PosInf | NegInf | NaN | Null

datatype exn = TypeError | NetworkError | SyntaxError

fun num_neg :: "jsnum \<Rightarrow> jsnum" where
  "num_neg (Fin a) = Fin (- a)"
| "num_neg PosInf = NegInf"
| "num_neg NegInf = PosInf"
| "num_neg NaN = NaN"
| "num_neg Null = Fin 0"

fun num_add :: "jsnum \<Rightarrow> jsnum \<Rightarrow> jsnum" where
  "num_add NaN _ = NaN"
| "num_add _ NaN = NaN"
| "num_add Null Null = Fin 0"
| "num_add Null y = y"
| "num_add x Null = x"
| "num_add (Fin a) (Fin b) = Fin (a + b)"
| "num_add PosInf NegInf = NaN"
| "num_add NegInf PosInf = NaN"
| "num_add PosInf _ = PosInf"
| "num_add NegInf _ = NegInf"
| "num_add (Fin a) PosInf = PosInf"
| "num_add (Fin a) NegInf = NegInf"

definition num_sub :: "jsnum \<Rightarrow> jsnum \<Rightarrow> jsnum" where
  "num_sub x y = num_add x (num_neg y)"

fun num_mul :: "jsnum \<Rightarrow> jsnum \<Rightarrow> jsnum" where
  "num_mul NaN _ = NaN"
| "num_mul _ NaN = NaN"
| "num_mul Null (Fin b) = Fin 0"
| "num_mul Null Null = Fin 0"
| "num_mul Null _ = NaN"
| "num_mul (Fin a) Null = Fin 0"
| "num_mul _ Null = NaN"
| "num_mul (Fin a) (Fin b) = Fin (a * b)"
| "num_mul (Fin a) PosInf = (if a = 0 then NaN else if 0 < a then PosInf else NegInf)"
| "num_mul (Fin a) NegInf = (if a = 0 then NaN else if 0 < a then NegInf else PosInf)"
| "num_mul PosInf (Fin b) = (if b = 0 then NaN else if 0 < b then PosInf else NegInf)"
| "num_mul NegInf (Fin b) = (if b = 0 then NaN else if 0 < b then NegInf else PosInf)"
| "num_mul PosInf PosInf = PosInf"
| "num_mul PosInf NegInf = NegInf"
| "num_mul NegInf PosInf = NegInf"
| "num_mul NegInf NegInf = PosInf"

fun num_div :: "jsnum \<Rightarrow> jsnum \<Rightarrow> jsnum" where
  "num_div NaN _ = NaN"
| "num_div _ NaN = NaN"
| "num_div Null (Fin b) = (if b = 0 then NaN else Fin 0)"
| "num_div Null Null = NaN"
| "num_div Null _ = Fin 0"
| "num_div (Fin a) Null = (if a = 0 then NaN else if 0 < a then PosInf else NegInf)"
| "num_div PosInf Null = PosInf"
| "num_div NegInf Null = NegInf"
| "num_div (Fin a) (Fin b) =
     (if b = 0 then (if a = 0 then NaN else if 0 < a then PosInf else NegInf)
      else Fin (a / b))"
| "num_div (Fin a) PosInf = Fin 0"
| "num_div (Fin a) NegInf = Fin 0"
| "num_div PosInf (Fin b) = (if 0 \<le> b then PosInf else NegInf)"
| "num_div NegInf (Fin b) = (if 0 \<le> b then NegInf else PosInf)"
| "num_div PosInf _ = NaN"
| "num_div NegInf _ = NaN"

text \<open>Comparisons: every comparison with \<open>NaN\<close> is false.\<close>

fun num_lt :: "jsnum \<Rightarrow> jsnum \<Rightarrow> bool" where
  "num_lt NaN _ = False"
| "num_lt _ NaN = False"
| "num_lt Null Null = False"
| "num_lt Null (Fin b) = (0 < b)"
| "num_lt (Fin a) Null = (a < 0)"
| "num_lt Null PosInf = True"
| "num_lt Null NegInf = False"
| "num_lt PosInf Null = False"
| "num_lt NegInf Null = True"
| "num_lt (Fin a) (Fin b) = (a < b)"
| "num_lt NegInf NegInf = False"
| "num_lt NegInf _ = True"
| "num_lt _ NegInf = False"
| "num_lt PosInf _ = False"
| "num_lt (Fin a) PosInf = True"

definition num_gt :: "jsnum \<Rightarrow> jsnum \<Rightarrow> bool" where
  "num_gt x y = num_lt y x"

fun num_ge :: "jsnum \<Rightarrow> jsnum \<Rightarrow> bool" where
  "num_ge NaN _ = False"
| "num_ge _ NaN = False"
| "num_ge x y = (\<not> num_lt x y)"

fun is_finite :: "jsnum \<Rightarrow> bool" where
  "is_finite (Fin a) = True"
| "is_finite _ = False"

subsection \<open>Rendering numbers\<close>

fun digits :: "nat \<Rightarrow> string" where
  "digits n = (if n < 10 then [char_of (48 + n)]
               else digits (n div 10) @ [char_of (48 + n mod 10)])"

declare digits.simps [simp del]

text \<open>
  \<open>Number.prototype.toFixed(1)\<close>: a value that is not finite is rendered by name; a
  negative value is rendered as a minus sign followed by the rendering of its absolute
  value; the integer \<open>n\<close> closest to ten times the value is taken, the larger one on a
  tie, and printed with a point before its last digit. From \<open>10^21\<close> on the language
  switches to the general number-to-string conversion, which is a parameter here. The
  receiver is a number; there is no equation for \<open>null\<close>.
\<close>

definition fixed1 :: "rat \<Rightarrow> string" where
  "fixed1 x = (let n = nat \<lfloor>x * 10 + 1 / 2\<rfloor> in digits (n div 10) @ ''.'' @ digits (n mod 10))"

fun toFixed1 :: "(jsnum \<Rightarrow> string) \<Rightarrow> jsnum \<Rightarrow> string" where
  "toFixed1 big NaN = ''NaN''"
| "toFixed1 big PosInf = ''Infinity''"
| "toFixed1 big NegInf = ''-Infinity''"
| "toFixed1 big (Fin x) =
     (if x < 0 then (if - x \<ge> 10 ^ 21 then ''-'' @ big (Fin (- x)) else ''-'' @ fixed1 (- x))
      else (if x \<ge> 10 ^ 21 then big (Fin x) else fixed1 x))"

section \<open>Data model (services/storage)\<close>

datatype demographic_type = Student | Professional | Retiree | Entrepreneur

record demographic =
  type_d :: demographic_type
  age :: "jsnum option"
  location :: "string option"
  occupation :: "string option"

record User =
  id_u :: string
  email :: string
  fullName :: string
  password :: "string option"
  demographic :: "demographic option"
  financialGoals :: "string list option"
  createdAt :: string

record expense =
  category :: string
  amount :: jsnum
  date :: string

record income =
  date_i :: string
  amount_i :: jsnum

record FinancialData =
  totalBalance :: jsnum
  monthlyIncome :: jsnum
  monthlyExpenses :: jsnum
  expenseBreakdown :: "expense list"
  incomeHistory :: "income list"
  expenseHistory :: "expense list"

record SavingsGoal =
  id_g :: string
  name_g :: string
  target_amount :: jsnum
  current_amount :: jsnum
  deadline :: "string option"
  createdAt_g :: string

datatype role = UserRole | AssistantRole

record ChatMessage =
  id_m :: string
  role_m :: role
  content_m :: string
  created_at :: string

record StoredMessage = ChatMessage +
  userId :: "string option"

section \<open>Persistent store (class StorageService)\<close>

text \<open>
  The browser's local storage maps keys to text. The session entry holds the active
  user's id as plain text; every other entry holds the text \<open>JSON.stringify\<close> made of a
  value and is read back with \<open>JSON.parse\<close>. An entry of the second kind is represented
  by the value that was serialised. Parsing the text of a financial document gives the
  value back with \<open>null\<close> in the place of every number that is not finite
  (\<open>json_financial\<close>); nothing checks what has been parsed. Setting an entry is taken to
  succeed (no quota). The registered listeners are callbacks of the views; they read the
  store and are not part of its state.

  The services are described for a store in which every entry they read is absent or
  holds what the storage service writes under that key (\<open>typed_store\<close>). Where an entry
  is of another kind the functions below answer as for text that does not parse, which
  is one of the things the code can do with it; the properties of the services that
  depend on what is read assume a typed store.
\<close>

datatype item =
    Text string
  | UsersDoc "User list"
  | FinancialDoc FinancialData
  | GoalsDoc "SavingsGoal list"
  | MessagesDoc "StoredMessage list"

type_synonym localStorage = "string \<rightharpoonup> item"

definition USERS_KEY :: string where "USERS_KEY = ''finova_users''"
definition SESSION_KEY :: string where "SESSION_KEY = ''finova_session_user''"
definition FINANCIAL_DATA_KEY :: string where "FINANCIAL_DATA_KEY = ''finova_financial_data''"
definition SAVINGS_GOALS_KEY :: string where "SAVINGS_GOALS_KEY = ''finova_savings_goals''"
definition CHAT_MESSAGES_KEY :: string where "CHAT_MESSAGES_KEY = ''finova_chat_messages''"

definition getAllUsers :: "localStorage \<Rightarrow> User list" where
  "getAllUsers ls = (case ls USERS_KEY of Some (UsersDoc users) \<Rightarrow> users | _ \<Rightarrow> [])"

definition saveAllUsers :: "User list \<Rightarrow> localStorage \<Rightarrow> localStorage" where
  "saveAllUsers users ls = ls(USERS_KEY \<mapsto> UsersDoc users)"

text \<open>\<open>getItem\<close> of the session key: the stored text, or nothing.\<close>

definition getActiveUserId :: "localStorage \<Rightarrow> string option" where
  "getActiveUserId ls = (case ls SESSION_KEY of Some (Text s) \<Rightarrow> Some s | _ \<Rightarrow> None)"

text \<open>Truthiness of a string or null: present and not empty.\<close>

fun truthy :: "string option \<Rightarrow> bool" where
  "truthy None = False"
| "truthy (Some s) = (s \<noteq> [])"

definition getCurrentUser :: "localStorage \<Rightarrow> User option" where
  "getCurrentUser ls =
     (case getActiveUserId ls of
        None \<Rightarrow> None
      | Some activeUserId \<Rightarrow>
          if activeUserId = [] then None
          else find (\<lambda>u. id_u u = activeUserId) (getAllUsers ls))"

definition getUserByEmail :: "string \<Rightarrow> localStorage \<Rightarrow> User option" where
  "getUserByEmail e ls = find (\<lambda>u. email u = e) (getAllUsers ls)"

definition addUser :: "User \<Rightarrow> localStorage \<Rightarrow> localStorage" where
  "addUser user ls = saveAllUsers (getAllUsers ls @ [user]) ls"

definition hasSession :: "localStorage \<Rightarrow> bool" where
  "hasSession ls = truthy (getActiveUserId ls)"

definition setActiveUser :: "string option \<Rightarrow> localStorage \<Rightarrow> localStorage" where
  "setActiveUser uid ls =
     (case uid of
        Some u \<Rightarrow> if u \<noteq> [] then ls(SESSION_KEY \<mapsto> Text u) else ls(SESSION_KEY := None)
      | None \<Rightarrow> ls(SESSION_KEY := None))"

definition getUserScopedKey :: "string \<Rightarrow> localStorage \<Rightarrow> string" where
  "getUserScopedKey baseKey ls =
     (case getActiveUserId ls of
        Some u \<Rightarrow> if u \<noteq> [] then baseKey @ ''_'' @ u else baseKey
      | None \<Rightarrow> baseKey)"

definition defaultFinancialData :: FinancialData where
  "defaultFinancialData =
     \<lparr> totalBalance = Fin 10000, monthlyIncome = Fin 2000, monthlyExpenses = Fin 500,
       expenseBreakdown = [], incomeHistory = [], expenseHistory = [] \<rparr>"

definition json_number :: "jsnum \<Rightarrow> jsnum" where
  "json_number x = (if is_finite x then x else Null)"

definition json_financial :: "FinancialData \<Rightarrow> FinancialData" where
  "json_financial d =
     \<lparr> totalBalance = json_number (totalBalance d),
       monthlyIncome = json_number (monthlyIncome d),
       monthlyExpenses = json_number (monthlyExpenses d),
       expenseBreakdown = map (\<lambda>e. e\<lparr>amount := json_number (amount e)\<rparr>) (expenseBreakdown d),
       incomeHistory = map (\<lambda>e. e\<lparr>amount_i := json_number (amount_i e)\<rparr>) (incomeHistory d),
       expenseHistory = map (\<lambda>e. e\<lparr>amount := json_number (amount e)\<rparr>) (expenseHistory d) \<rparr>"

definition getFinancialData :: "localStorage \<Rightarrow> FinancialData" where
  "getFinancialData ls =
     (case ls (getUserScopedKey FINANCIAL_DATA_KEY ls) of
        Some (FinancialDoc d) \<Rightarrow> json_financial d
      | _ \<Rightarrow> defaultFinancialData)"

definition saveFinancialData :: "FinancialData \<Rightarrow> localStorage \<Rightarrow> localStorage" where
  "saveFinancialData d ls = ls(getUserScopedKey FINANCIAL_DATA_KEY ls \<mapsto> FinancialDoc d)"

definition getSavingsGoals :: "localStorage \<Rightarrow> SavingsGoal list" where
  "getSavingsGoals ls =
     (case ls (getUserScopedKey SAVINGS_GOALS_KEY ls) of
        Some (GoalsDoc goals) \<Rightarrow> goals
      | _ \<Rightarrow> [])"

definition saveSavingsGoals :: "SavingsGoal list \<Rightarrow> localStorage \<Rightarrow> localStorage" where
  "saveSavingsGoals goals ls = ls(getUserScopedKey SAVINGS_GOALS_KEY ls \<mapsto> GoalsDoc goals)"

definition getChatMessages :: "string option \<Rightarrow> localStorage \<Rightarrow> StoredMessage list" where
  "getChatMessages uid ls =
     (case ls (getUserScopedKey CHAT_MESSAGES_KEY ls) of
        Some (MessagesDoc allMessages) \<Rightarrow>
          if truthy uid then filter (\<lambda>m. userId m = uid) allMessages else allMessages
      | _ \<Rightarrow> [])"

definition saveChatMessage :: "StoredMessage \<Rightarrow> localStorage \<Rightarrow> localStorage" where
  "saveChatMessage message ls =
     ls(getUserScopedKey CHAT_MESSAGES_KEY ls \<mapsto> MessagesDoc (getChatMessages None ls @ [message]))"

definition getChatHistory :: "string option \<Rightarrow> localStorage \<Rightarrow> ChatMessage list" where
  "getChatHistory uid ls = map ChatMessage.truncate (getChatMessages uid ls)"

text \<open>
  \<open>clearAll\<close> removes the users entry and the session entry, then asks for the active
  user's id and removes that user's three entries when there is one.
\<close>

definition clearAll :: "localStorage \<Rightarrow> localStorage" where
  "clearAll ls =
     (let ls1 = ls(USERS_KEY := None);
          ls2 = ls1(SESSION_KEY := None)
      in case getActiveUserId ls2 of
           Some u \<Rightarrow>
             if u \<noteq> []
             then ls2(FINANCIAL_DATA_KEY @ ''_'' @ u := None,
                      SAVINGS_GOALS_KEY @ ''_'' @ u := None,
                      CHAT_MESSAGES_KEY @ ''_'' @ u := None)
             else ls2
         | None \<Rightarrow> ls2)"

section \<open>Sign-up and sign-in (page Auth)\<close>

text \<open>
  The two form handlers. The id of a new user and the creation time come from the clock
  and the random generator and are arguments here; the toast shown is the result.
\<close>

datatype toast = Account_created | Welcome_back | Sign_in_failed

definition handleSignUp ::
  "string \<Rightarrow> string \<Rightarrow> string \<Rightarrow> string \<Rightarrow> demographic_type \<Rightarrow> string \<Rightarrow>
   localStorage \<Rightarrow> localStorage \<times> toast" where
  "handleSignUp newId em name pw demographicType now ls =
     (let newUser = \<lparr> id_u = newId, email = em, fullName = name, password = Some pw,
                       demographic = Some \<lparr> type_d = demographicType, age = None,
                                             location = None, occupation = None \<rparr>,
                       financialGoals = Some [], createdAt = now \<rparr>;
          ls1 = addUser newUser ls;
          ls2 = setActiveUser (Some newId) ls1;
          ls3 = saveFinancialData
                  \<lparr> totalBalance = Fin 0, monthlyIncome = Fin 0, monthlyExpenses = Fin 0,
                    expenseBreakdown = [], incomeHistory = [], expenseHistory = [] \<rparr> ls2
      in (ls3, Account_created))"

definition handleSignIn :: "string \<Rightarrow> string \<Rightarrow> localStorage \<Rightarrow> localStorage \<times> toast" where
  "handleSignIn em pw ls =
     (case getUserByEmail em ls of
        Some existing \<Rightarrow>
          if \<not> truthy (password existing) \<or> password existing = Some pw
          then (setActiveUser (Some (id_u existing)) ls, Welcome_back)
          else (ls, Sign_in_failed)
      | None \<Rightarrow> (ls, Sign_in_failed))"

section \<open>Strings\<close>

text \<open>
  A string of the language is a sequence of UTF-16 code units. It is represented by its
  UTF-8 encoding, a list of bytes, which is what a string literal of the logic gives for
  ASCII text; every string without an unpaired surrogate is represented, and two of them
  are equal, or one occurs in the other, exactly when that holds of their encodings.
  The operations of the language that the services use are defined on this
  representation: \<open>includes\<close>, \<open>length\<close>, \<open>toLowerCase\<close>, \<open>trim\<close>, \<open>split\<close>, \<open>join\<close>,
  \<open>slice\<close> with a negative start and global replacement of a fixed text. The glyphs of
  the templates that are outside ASCII are the byte sequences of the source file, under
  a name each.
\<close>

abbreviation nl :: string where "nl \<equiv> [CHR 0x0A]"

definition bullet :: string where
  "bullet = [CHR 0xE2, CHR 0x80, CHR 0x9A, CHR 0xC3, CHR 0x84, CHR 0xC2, CHR 0xA2]"

definition glyph_warning :: string where
  "glyph_warning = [CHR 0xE2, CHR 0x80, CHR 0x9A, CHR 0xC3, CHR 0xB6, CHR 0xE2, CHR 0x80, CHR 0xA0, CHR 0xC3, CHR 0x94, CHR 0xE2, CHR 0x88, CHR 0x8F, CHR 0xC3, CHR 0xA8]"

definition glyph_target :: string where
  "glyph_target = [CHR 0xEF, CHR 0xA3, CHR 0xBF, CHR 0xC3, CHR 0xBC, CHR 0xC3, CHR 0xA9, CHR 0xC3, CHR 0x98]"

definition glyph_chart_up :: string where
  "glyph_chart_up = [CHR 0xEF, CHR 0xA3, CHR 0xBF, CHR 0xC3, CHR 0xBC, CHR 0xC3, CHR 0xAC, CHR 0xC3, CHR 0xA0]"

definition glyph_clipboard :: string where
  "glyph_clipboard = [CHR 0xEF, CHR 0xA3, CHR 0xBF, CHR 0xC3, CHR 0xBC, CHR 0xC3, CHR 0xAC, CHR 0xC3, CHR 0xA3]"

definition glyph_bar_chart :: string where
  "glyph_bar_chart = [CHR 0xEF, CHR 0xA3, CHR 0xBF, CHR 0xC3, CHR 0xBC, CHR 0xC3, CHR 0xAC, CHR 0xC3, CHR 0xA4]"

definition glyph_bulb :: string where
  "glyph_bulb = [CHR 0xEF, CHR 0xA3, CHR 0xBF, CHR 0xC3, CHR 0xBC, CHR 0xC3, CHR 0xAD, CHR 0xC2, CHR 0xB0]"

definition glyph_banknote :: string where
  "glyph_banknote = [CHR 0xEF, CHR 0xA3, CHR 0xBF, CHR 0xC3, CHR 0xBC, CHR 0xC3, CHR 0xAD, CHR 0xC2, CHR 0xB5]"

definition glyph_money_wings :: string where
  "glyph_money_wings = [CHR 0xEF, CHR 0xA3, CHR 0xBF, CHR 0xC3, CHR 0xBC, CHR 0xC3, CHR 0xAD, CHR 0xE2, CHR 0x88, CHR 0x8F]"

definition glyph_money_bag :: string where
  "glyph_money_bag = [CHR 0xEF, CHR 0xA3, CHR 0xBF, CHR 0xC3, CHR 0xBC, CHR 0xC3, CHR 0xAD, CHR 0xE2, CHR 0x88, CHR 0x9E]"


fun startsWith :: "string \<Rightarrow> string \<Rightarrow> bool" where
  "startsWith s [] = True"
| "startsWith [] (d # t) = False"
| "startsWith (c # s) (d # t) = (c = d \<and> startsWith s t)"

fun includes_str :: "string \<Rightarrow> string \<Rightarrow> bool" where
  "includes_str [] t = (t = [])"
| "includes_str (c # s) t = (startsWith (c # s) t \<or> includes_str s t)"

text \<open>
  \<open>s.length\<close> counts code units. A byte below \<open>0x80\<close> is a character of its own, a byte
  from \<open>0xC0\<close> on starts a character and the bytes from \<open>0x80\<close> to \<open>0xBF\<close> continue
  one; a character that starts with a byte from \<open>0xF0\<close> on lies outside the basic plane
  and takes two code units, every other character takes one.
\<close>

definition code_units :: "char \<Rightarrow> nat" where
  "code_units c =
     (if \<not> digit7 c then 1 else if \<not> digit6 c then 0 else if digit5 c \<and> digit4 c then 2 else 1)"

definition js_length :: "string \<Rightarrow> nat" where
  "js_length s = sum_list (map code_units s)"

subsection \<open>The platform\<close>

text \<open>
  What the services take from the platform is collected in one record: the rendering of a
  number in the user's locale (\<open>toLocaleString\<close>), the general number-to-string
  conversion, the value \<open>Math.random()\<close> returns, and the lower-case mapping of the
  characters outside ASCII. The last one is given the text before the character, last
  byte first, and the text that starts with the character, and returns what
  \<open>toLowerCase\<close> puts in the place of the character.
\<close>

record env =
  toLocaleString :: "jsnum \<Rightarrow> string"
  numberToString :: "jsnum \<Rightarrow> string"
  random :: rat
  lowerNonASCII :: "string \<Rightarrow> string \<Rightarrow> string"

subsection \<open>Letter case\<close>

definition lower_char :: "char \<Rightarrow> char" where
  "lower_char c =
     (case map_of (zip ''ABCDEFGHIJKLMNOPQRSTUVWXYZ'' ''abcdefghijklmnopqrstuvwxyz'') c of
        Some l \<Rightarrow> l
      | None \<Rightarrow> c)"

text \<open>
  \<open>toLowerCase\<close> maps the letters A to Z to a to z and leaves every other ASCII
  character as it is, whatever surrounds it. A character outside ASCII is mapped by
  the platform (the result can be ASCII, as for the Kelvin sign, and can depend on the
  neighbours, as for the final sigma).
\<close>

fun lower_from :: "env \<Rightarrow> string \<Rightarrow> string \<Rightarrow> string" where
  "lower_from E before [] = []"
| "lower_from E before (c # s) =
     (if \<not> digit7 c then lower_char c # lower_from E (c # before) s
      else if digit6 c then lowerNonASCII E before (c # s) @ lower_from E (c # before) s
      else lower_from E (c # before) s)"

definition toLowerCase :: "env \<Rightarrow> string \<Rightarrow> string" where
  "toLowerCase E s = lower_from E [] s"

subsection \<open>White space\<close>

text \<open>
  The white space and line terminator characters of the language, in UTF-8: the six of
  ASCII, the no-break space, the Ogham space mark, the spaces from \<open>U+2000\<close> to \<open>U+200A\<close>,
  the line and paragraph separators, the narrow no-break space, the medium mathematical
  space, the ideographic space and the byte order mark.
\<close>

definition white_space :: "string list" where
  "white_space =
     [[CHR 0x09], [CHR 0x0A], [CHR 0x0B], [CHR 0x0C], [CHR 0x0D], [CHR 0x20],
      [CHR 0xC2, CHR 0xA0],
      [CHR 0xE1, CHR 0x9A, CHR 0x80],
      [CHR 0xE2, CHR 0x80, CHR 0x80], [CHR 0xE2, CHR 0x80, CHR 0x81],
      [CHR 0xE2, CHR 0x80, CHR 0x82], [CHR 0xE2, CHR 0x80, CHR 0x83],
      [CHR 0xE2, CHR 0x80, CHR 0x84], [CHR 0xE2, CHR 0x80, CHR 0x85],
      [CHR 0xE2, CHR 0x80, CHR 0x86], [CHR 0xE2, CHR 0x80, CHR 0x87],
      [CHR 0xE2, CHR 0x80, CHR 0x88], [CHR 0xE2, CHR 0x80, CHR 0x89],
      [CHR 0xE2, CHR 0x80, CHR 0x8A],
      [CHR 0xE2, CHR 0x80, CHR 0xA8], [CHR 0xE2, CHR 0x80, CHR 0xA9],
      [CHR 0xE2, CHR 0x80, CHR 0xAF],
      [CHR 0xE2, CHR 0x81, CHR 0x9F],
      [CHR 0xE3, CHR 0x80, CHR 0x80],
      [CHR 0xEF, CHR 0xBB, CHR 0xBF]]"

text \<open>
  The number of bytes of the character of the given list that the text starts with, or 0
  when it starts with none of them.
\<close>

definition space_at :: "string list \<Rightarrow> string \<Rightarrow> nat" where
  "space_at ws s = (case find (\<lambda>w. startsWith s w) ws of Some w \<Rightarrow> length w | None \<Rightarrow> 0)"

text \<open>
  Skipping the white space at the start of a text; the number counts the bytes that are
  left of the character being skipped.
\<close>

fun skip_spaces :: "string list \<Rightarrow> nat \<Rightarrow> string \<Rightarrow> string" where
  "skip_spaces ws k [] = []"
| "skip_spaces ws k (c # s) =
     (if 0 < k then skip_spaces ws (k - 1) s
      else if 0 < space_at ws (c # s) then skip_spaces ws (space_at ws (c # s) - 1) s
      else c # s)"

text \<open>
  \<open>trim\<close> removes the white space at both ends; at the end the text and the characters
  are read backwards.
\<close>

definition trim :: "string \<Rightarrow> string" where
  "trim s = rev (skip_spaces (map rev white_space) 0 (rev (skip_spaces white_space 0 s)))"

text \<open>\<open>xs.slice(-n)\<close>: the last \<open>n\<close> elements; \<open>xs.slice(-6, -3)\<close>.\<close>

definition slice_last :: "nat \<Rightarrow> 'a list \<Rightarrow> 'a list" where
  "slice_last n xs = drop (length xs - n) xs"

definition slice_6_3 :: "'a list \<Rightarrow> 'a list" where
  "slice_6_3 xs = take ((length xs - 3) - (length xs - 6)) (drop (length xs - 6) xs)"

fun join :: "string \<Rightarrow> string list \<Rightarrow> string" where
  "join sep [] = []"
| "join sep [x] = x"
| "join sep (x # y # ys) = x @ sep @ join sep (y # ys)"

text \<open>
  \<open>s.split(sep)\<close> for a separator that is not empty: the pieces between the occurrences
  of the separator, found from left to right. The first argument of \<open>split_acc\<close> is the
  piece collected so far.
\<close>

fun split_acc :: "string \<Rightarrow> string \<Rightarrow> string \<Rightarrow> string list" where
  "split_acc cur sep [] = [cur]"
| "split_acc cur sep (c # s) =
     (if startsWith (c # s) sep \<and> sep \<noteq> []
      then cur # split_acc [] sep (drop (length sep) (c # s))
      else split_acc (cur @ [c]) sep s)"

definition split :: "string \<Rightarrow> string \<Rightarrow> string list" where
  "split s sep = split_acc [] sep s"

text \<open>\<open>s.replace(/text/g, '')\<close> for a fixed text: every occurrence is removed.\<close>

definition remove_all :: "string \<Rightarrow> string \<Rightarrow> string" where
  "remove_all pat s = concat (split s pat)"

section \<open>Rule-based service (class AIService): context and aggregation\<close>

text \<open>
  \<open>parseFloat\<close>: white space is skipped, then a sign, then either \<open>Infinity\<close> or decimal
  digits with an optional fraction and an optional exponent are read; what follows is
  ignored, and without any digit the result is \<open>NaN\<close>.
\<close>

definition is_digit :: "char \<Rightarrow> bool" where
  "is_digit c = (c \<in> set ''0123456789'')"

definition digit_val :: "char \<Rightarrow> nat" where
  "digit_val c = (case map_of (zip ''0123456789'' [0, 1, 2, 3, 4, 5, 6, 7, 8, 9]) c of
                    Some d \<Rightarrow> d | None \<Rightarrow> 0)"

definition digits_val :: "string \<Rightarrow> nat" where
  "digits_val s = foldl (\<lambda>n c. 10 * n + digit_val c) 0 s"

definition exponent_of :: "string \<Rightarrow> int" where
  "exponent_of s =
     (case s of
        [] \<Rightarrow> 0
      | c # r \<Rightarrow>
          if c = CHR ''e'' \<or> c = CHR ''E'' then
            (case r of
               [] \<Rightarrow> 0
             | d # r' \<Rightarrow>
                 if d = CHR ''-'' then
                   (if takeWhile is_digit r' = [] then 0 else - int (digits_val (takeWhile is_digit r')))
                 else if d = CHR ''+'' then int (digits_val (takeWhile is_digit r'))
                 else int (digits_val (takeWhile is_digit r)))
          else 0)"

definition unsigned_float :: "string \<Rightarrow> jsnum" where
  "unsigned_float s =
     (if startsWith s ''Infinity'' then PosInf
      else
        let ip = takeWhile is_digit s;
            r1 = dropWhile is_digit s;
            fp = (case r1 of c # r \<Rightarrow> if c = CHR ''.'' then takeWhile is_digit r else [] | [] \<Rightarrow> []);
            r2 = (case r1 of c # r \<Rightarrow> if c = CHR ''.'' then dropWhile is_digit r else r1 | [] \<Rightarrow> []);
            e = exponent_of r2
        in if ip = [] \<and> fp = [] then NaN
           else Fin (of_nat (digits_val (ip @ fp)) / 10 ^ length fp
                     * (if 0 \<le> e then 10 ^ nat e else 1 / 10 ^ nat (- e))))"

definition parseFloat :: "string \<Rightarrow> jsnum" where
  "parseFloat s =
     (case skip_spaces white_space 0 s of
        [] \<Rightarrow> NaN
      | c # r \<Rightarrow>
          if c = CHR ''-'' then num_neg (unsigned_float r)
          else if c = CHR ''+'' then unsigned_float r
          else unsigned_float (c # r))"

subsection \<open>Responses\<close>

record BudgetSummary =
  monthlyIncome_s :: jsnum
  monthlyExpenses_s :: jsnum
  monthlySavings :: jsnum
  savingsRate :: string
  categoryBreakdown :: "(string \<times> jsnum) list"
  totalBalance_s :: jsnum

record Insights =
  trends :: "string list"
  anomalies :: "string list"
  recommendations :: "string list"

record AIResponse =
  content :: string
  suggestions :: "string list option"
  budgetSummary :: "BudgetSummary option"
  insights :: "Insights option"

datatype tone = Casual | ProfessionalTone | Formal | Friendly

datatype complexity = Simple | Moderate | Detailed

definition getUserContext :: "localStorage \<Rightarrow> User option \<times> FinancialData" where
  "getUserContext ls = (getCurrentUser ls, getFinancialData ls)"

definition getDemographicTone :: "User option \<Rightarrow> tone \<times> complexity" where
  "getDemographicTone user =
     (case user of
        None \<Rightarrow> (Friendly, Moderate)
      | Some u \<Rightarrow>
          (case demographic u of
             None \<Rightarrow> (Friendly, Moderate)
           | Some dm \<Rightarrow>
               (case type_d dm of
                  Student \<Rightarrow> (Casual, Simple)
                | Professional \<Rightarrow> (ProfessionalTone, Detailed)
                | Retiree \<Rightarrow> (Formal, Simple)
                | Entrepreneur \<Rightarrow> (ProfessionalTone, Detailed))))"

subsection \<open>Financial Aggregator\<close>

text \<open>
  The category breakdown is an object used as a dictionary; it is an association list
  here, in the order in which the keys were first set. Category names are taken not to
  name a member that every object inherits.
\<close>

fun obj_set :: "(string \<times> 'a) list \<Rightarrow> string \<Rightarrow> 'a \<Rightarrow> (string \<times> 'a) list" where
  "obj_set [] k v = [(k, v)]"
| "obj_set ((k', v') # kvs) k v = (if k' = k then (k, v) # kvs else (k', v') # obj_set kvs k v)"

text \<open>
  \<open>Object.entries\<close> enumerates the keys that are array indices first, in ascending
  numeric order, and then the other keys in the order in which they were first set. An
  array index is the decimal numeral, without leading zeros, of a number below
  \<open>2^32 - 1\<close>.
\<close>

definition is_array_index :: "string \<Rightarrow> bool" where
  "is_array_index k \<longleftrightarrow>
     k \<noteq> [] \<and> list_all is_digit k \<and> (if startsWith k ''0'' then k = ''0'' else True) \<and>
     digits_val k < 4294967295"

definition entries :: "(string \<times> 'a) list \<Rightarrow> (string \<times> 'a) list" where
  "entries kvs =
     sort_key (\<lambda>kv. digits_val (fst kv)) (filter (\<lambda>kv. is_array_index (fst kv)) kvs) @
     filter (\<lambda>kv. \<not> is_array_index (fst kv)) kvs"

text \<open>A number is falsy when it is zero or \<open>NaN\<close>; a missing entry is undefined.\<close>

definition falsy_num :: "jsnum option \<Rightarrow> bool" where
  "falsy_num v = (v = None \<or> v = Some (Fin 0) \<or> v = Some NaN)"

definition breakdown_step :: "(string \<times> jsnum) list \<Rightarrow> expense \<Rightarrow> (string \<times> jsnum) list" where
  "breakdown_step acc e =
     (let acc1 = (if falsy_num (map_of acc (category e)) then obj_set acc (category e) (Fin 0)
                  else acc)
      in obj_set acc1 (category e)
           (num_add (case map_of acc1 (category e) of Some v \<Rightarrow> v | None \<Rightarrow> NaN) (amount e)))"

definition category_breakdown :: "expense list \<Rightarrow> (string \<times> jsnum) list" where
  "category_breakdown es = foldl breakdown_step [] es"

definition savings_rate :: "FinancialData \<Rightarrow> jsnum" where
  "savings_rate d =
     num_mul (num_div (num_sub (monthlyIncome d) (monthlyExpenses d)) (monthlyIncome d)) (Fin 100)"

definition generateBudgetSummary :: "env \<Rightarrow> FinancialData \<Rightarrow> BudgetSummary" where
  "generateBudgetSummary E d =
     (let savingsRate = savings_rate d;
          monthlySavings = num_sub (monthlyIncome d) (monthlyExpenses d);
          categoryBreakdown = category_breakdown (expenseBreakdown d)
      in \<lparr> monthlyIncome_s = monthlyIncome d,
           monthlyExpenses_s = monthlyExpenses d,
           monthlySavings = monthlySavings,
           savingsRate = toFixed1 (numberToString E) savingsRate,
           categoryBreakdown = categoryBreakdown,
           totalBalance_s = totalBalance d \<rparr>)"

definition sum_amounts :: "expense list \<Rightarrow> jsnum" where
  "sum_amounts es = foldl (\<lambda>s e. num_add s (amount e)) (Fin 0) es"

text \<open>
  \<open>entries.sort((a, b) => b[1] - a[1])\<close>: a stable sort, largest amount first. An entry
  moves behind another one only when the comparison of the two is positive.
\<close>

fun insert_desc :: "string \<times> jsnum \<Rightarrow> (string \<times> jsnum) list \<Rightarrow> (string \<times> jsnum) list" where
  "insert_desc x [] = [x]"
| "insert_desc x (y # ys) =
     (if num_gt (num_sub (snd y) (snd x)) (Fin 0) then y # insert_desc x ys else x # y # ys)"

definition sort_desc :: "(string \<times> jsnum) list \<Rightarrow> (string \<times> jsnum) list" where
  "sort_desc xs = foldr insert_desc xs []"

definition trend_part :: "FinancialData \<Rightarrow> string list \<times> string list" where
  "trend_part d =
     (if length (expenseHistory d) > 1 then
        (let recentExpenses = num_div (sum_amounts (slice_last 3 (expenseHistory d))) (Fin 3);
             olderExpenses = num_div (sum_amounts (slice_6_3 (expenseHistory d))) (Fin 3)
         in if num_gt recentExpenses (num_mul olderExpenses (Fin (11 / 10)))
            then ([''Your spending has increased by over 10% in recent months.''],
                  [''Review your recent expenses to identify areas where you can cut back.''])
            else if num_lt recentExpenses (num_mul olderExpenses (Fin (9 / 10)))
            then ([''Great job! Your spending has decreased recently.''], [])
            else ([], []))
      else ([], []))"

text \<open>
  \<open>generateSpendingInsights\<close> pushes onto three lists in the order of the source: the
  trend of the expense history, the savings rate, the largest category, the balance.
\<close>

definition generateSpendingInsights :: "FinancialData \<Rightarrow> Insights" where
  "generateSpendingInsights d =
     (let savingsRate = savings_rate d;
          (t1, r1) = trend_part d;
          r2 = (if num_lt savingsRate (Fin 10)
                then [''Consider increasing your savings rate to at least 10% of your income.'']
                else []);
          t2 = (if \<not> num_lt savingsRate (Fin 10) \<and> num_ge savingsRate (Fin 20)
                then [''Excellent savings rate! You're saving 20% or more of your income.'']
                else []);
          r3 = (case sort_desc (entries (category_breakdown (expenseBreakdown d))) of
                  [] \<Rightarrow> []
                | maxCategory # _ \<Rightarrow>
                    if num_gt (snd maxCategory) (num_mul (monthlyExpenses d) (Fin (4 / 10)))
                    then [fst maxCategory @ '' is your largest expense category. Consider reviewing it for optimization opportunities.'']
                    else []);
          low = num_lt (totalBalance d) (num_mul (monthlyExpenses d) (Fin 3));
          a4 = (if low
                then [''Your emergency fund is below 3 months of expenses. Consider building it up.'']
                else []);
          r4 = (if low
                then [''Aim to have 3-6 months of expenses saved as an emergency fund.'']
                else [])
      in \<lparr> trends = t1 @ t2, anomalies = a4, recommendations = r1 @ r2 @ r3 @ r4 \<rparr>)"

section \<open>Rule-based service: advice texts\<close>

text \<open>
  The texts of the service, in the order of the source. Two methods of the class,
  \<open>generateSavingsSuggestions\<close> and \<open>generateFinancialHealthCheck\<close>, are called from
  nowhere and are left out.
\<close>

text \<open>
  Some explanations call an advice generator with no user and with the empty object in
  the place of the financial data. Every numeric field of the empty object is undefined,
  and the generators reached this way only subtract, multiply and compare such fields,
  where undefined acts as \<open>NaN\<close>; none of them calls a method on a field or reads a list.
\<close>

definition emptyFinancialData :: FinancialData where
  "emptyFinancialData =
     \<lparr> totalBalance = NaN, monthlyIncome = NaN, monthlyExpenses = NaN,
       expenseBreakdown = [], incomeHistory = [], expenseHistory = [] \<rparr>"

text \<open>\<open>user?.demographic?.type\<close>\<close>

definition demographic_type_of :: "User option \<Rightarrow> demographic_type option" where
  "demographic_type_of user =
     (case user of
        None \<Rightarrow> None
      | Some u \<Rightarrow> (case demographic u of None \<Rightarrow> None | Some dm \<Rightarrow> Some (type_d dm)))"

text \<open>
  \<open>generateBudgetResponse\<close> calls \<open>toLocaleString\<close> on the income, the expenses and
  the savings of the summary and, for the detailed complexity, on the balance and on the
  amount of every category. The first of these receivers that is \<open>null\<close> raises a type
  error; nothing is caught.
\<close>

definition generateBudgetResponse ::
  "env \<Rightarrow> BudgetSummary \<Rightarrow> tone \<Rightarrow> complexity \<Rightarrow> exn + string" where
  \<open>generateBudgetResponse E summary t c =
     (if monthlyIncome_s summary = Null \<or> monthlyExpenses_s summary = Null \<or>
         monthlySavings summary = Null \<or>
         (c = Detailed \<and>
          (totalBalance_s summary = Null \<or>
           list_ex (\<lambda>(cat, amount). amount = Null) (entries (categoryBreakdown summary))))
      then Inl TypeError
      else Inr
     (let greeting = (if t = Casual then ''Here is your budget summary:''
                      else if t = ProfessionalTone then ''Here is your budget summary:''
                      else ''Your budget overview:'');
          r1 = greeting @ (nl @ nl) @
               (glyph_money_bag @ '' Monthly Income: $'') @ toLocaleString E (monthlyIncome_s summary) @ nl @
               (glyph_money_wings @ '' Monthly Expenses: $'') @ toLocaleString E (monthlyExpenses_s summary) @ nl @
               (glyph_banknote @ '' Monthly Savings: $'') @ toLocaleString E (monthlySavings summary) @ nl @
               (glyph_bar_chart @ '' Savings Rate: '') @ savingsRate summary @ (''%'' @ nl @ nl);
          r2 = (if c = Detailed then
                  ''Current Balance: $'' @ toLocaleString E (totalBalance_s summary) @ nl @
                  (if length (categoryBreakdown summary) > 0 then
                     (nl @ ''Expense Categories:'' @ nl) @
                     concat (map (\<lambda>(cat, amount).
                        (''  '' @ bullet @ '' '') @ cat @ '': $'' @ toLocaleString E amount @ '' ('' @
                        toFixed1 (numberToString E)
                          (num_mul (num_div amount (monthlyExpenses_s summary)) (Fin 100)) @
                        (''%)'' @ nl)) (entries (categoryBreakdown summary)))
                   else [])
                else []);
          r3 = (if num_lt (parseFloat (savingsRate summary)) (Fin 10)
                then (nl @ glyph_bulb @ '' Tip: Try to save at least 10% of your income each month for better financial health.'')
                else [])
      in r1 @ r2 @ r3))\<close>

definition bullet_lines :: "string list \<Rightarrow> string" where
  \<open>bullet_lines xs = concat (map (\<lambda>x. (''  '' @ bullet @ '' '') @ x @ nl) xs)\<close>

definition generateInsightsResponse :: "Insights \<Rightarrow> tone \<Rightarrow> complexity \<Rightarrow> string" where
  \<open>generateInsightsResponse ins t c =
     (if t = Casual then (''Here are your spending insights! '' @ glyph_bar_chart @ nl @ nl)
      else (''Spending Analysis:'' @ nl @ nl)) @
     (if length (trends ins) > 0
      then (glyph_chart_up @ '' Trends:'' @ nl) @ bullet_lines (trends ins) @ nl else []) @
     (if length (anomalies ins) > 0
      then (glyph_warning @ '' Items to Review:'' @ nl) @ bullet_lines (anomalies ins) @ nl else []) @
     (if length (recommendations ins) > 0
      then (glyph_bulb @ '' Recommendations:'' @ nl) @ bullet_lines (recommendations ins) else [])\<close>

definition generateSavingsAdvice ::
  "env \<Rightarrow> User option \<Rightarrow> FinancialData \<Rightarrow> tone \<Rightarrow> complexity \<Rightarrow> string" where
  \<open>generateSavingsAdvice E user d t c =
     (let savingsRate = savings_rate d;
          monthlySavings = num_sub (monthlyIncome d) (monthlyExpenses d)
      in (if t = Casual then (''Here is some savings advice! '' @ glyph_money_bag @ nl @ nl)
          else (''Savings Recommendations:'' @ nl @ nl)) @
         (if num_lt savingsRate (Fin 10) then
            ''Your current savings rate is '' @ toFixed1 (numberToString E) savingsRate @
            ''%. The general recommendation is to save at least 10-20% of your income.''
          else if num_lt savingsRate (Fin 20) then
            ''Good job! You are saving '' @ toFixed1 (numberToString E) savingsRate @
            ''% of your income. Consider increasing it to 20% for better financial security.''
          else
            ''Excellent! You are saving '' @ toFixed1 (numberToString E) savingsRate @
            ''% of your income. Keep up the great work!'') @
         (nl @ nl @ ''You are currently saving $'') @ toLocaleString E monthlySavings @ '' per month.'' @
         (if c = Detailed then
            (nl @ nl @ ''Here are some strategies to boost your savings:'' @ nl) @
            (''1. Automate your savings transfers'' @ nl) @
            (''2. Review and reduce unnecessary expenses'' @ nl) @
            (''3. Create a separate savings account for goals'' @ nl) @
            ''4. Track your spending to identify opportunities''
          else []))\<close>

definition generateInvestmentAdvice ::
  "User option \<Rightarrow> FinancialData \<Rightarrow> tone \<Rightarrow> complexity \<Rightarrow> string" where
  \<open>generateInvestmentAdvice user d t c =
     (if t = Casual then (''Investment advice! '' @ glyph_chart_up @ nl @ nl)
      else (''Investment Recommendations:'' @ nl @ nl)) @
     (''Before investing, ensure you have:'' @ nl) @
     (''1. An emergency fund (3-6 months of expenses)'' @ nl) @
     (''2. High-interest debt paid off'' @ nl) @
     (''3. A stable income source'' @ nl @ nl) @
     (if num_lt (totalBalance d) (num_mul (monthlyExpenses d) (Fin 6)) then
        ''I recommend building your emergency fund first before investing.''
      else
        (''Consider starting with:'' @ nl) @
        (bullet @ '' Index funds or ETFs for diversification'' @ nl) @
        (bullet @ '' 401(k) or similar retirement accounts if available'' @ nl) @
        (bullet @ '' Dollar-cost averaging strategy'' @ nl @ nl) @
        (if c = Detailed then
           ''Remember: All investments carry risk. Consider your risk tolerance and time horizon.''
         else []))\<close>

definition generateTaxAdvice ::
  "User option \<Rightarrow> FinancialData \<Rightarrow> tone \<Rightarrow> complexity \<Rightarrow> string" where
  \<open>generateTaxAdvice user d t c =
     (if t = Casual then (''Tax tips! '' @ glyph_clipboard @ nl @ nl)
      else (''Tax Planning Advice:'' @ nl @ nl)) @
     (''General tax-saving strategies:'' @ nl @ nl) @
     (''1. Maximize retirement contributions (401(k), IRA)'' @ nl) @
     (''2. Keep receipts for deductible expenses'' @ nl) @
     (''3. Consider tax-loss harvesting for investments'' @ nl) @
     (''4. Take advantage of tax credits and deductions'' @ nl @ nl) @
     (if demographic_type_of user = Some Student then
        ''As a student, you may qualify for education credits and deductions. Keep track of tuition and education expenses.''
      else if demographic_type_of user = Some Professional then
        ''As a professional, consider contributing to retirement accounts and keeping track of work-related expenses.''
      else []) @
     (nl @ nl @ ''Note: I am providing general advice. Consult a tax professional for personalized guidance.'')\<close>

text \<open>The goals are numbered from 1.\<close>

fun numbered_goals :: "nat \<Rightarrow> string list \<Rightarrow> string" where
  \<open>numbered_goals i [] = []\<close>
| \<open>numbered_goals i (goal # goals) =
     digits (i + 1) @ ''. '' @ goal @ nl @ numbered_goals (i + 1) goals\<close>

definition generateGoalsAdvice :: "User option \<Rightarrow> tone \<Rightarrow> complexity \<Rightarrow> string" where
  \<open>generateGoalsAdvice user t c =
     (if t = Casual then (''Let us talk about goals! '' @ glyph_target @ nl @ nl)
      else (''Financial Goal Planning:'' @ nl @ nl)) @
     (''Setting and achieving financial goals:'' @ nl @ nl) @
     (''1. Make goals SMART (Specific, Measurable, Achievable, Relevant, Time-bound)'' @ nl) @
     (''2. Break large goals into smaller milestones'' @ nl) @
     (''3. Track progress regularly'' @ nl) @
     (''4. Adjust goals as your situation changes'' @ nl @ nl) @
     (case (case user of None \<Rightarrow> None | Some u \<Rightarrow> financialGoals u) of
        Some (g # gs) \<Rightarrow> (''Your current goals:'' @ nl) @ numbered_goals 0 (g # gs)
      | _ \<Rightarrow> ''You have not set any financial goals yet. Would you like help creating some?'')\<close>

definition generateDebtAdvice ::
  "env \<Rightarrow> User option \<Rightarrow> FinancialData \<Rightarrow> tone \<Rightarrow> complexity \<Rightarrow> string" where
  \<open>generateDebtAdvice E user d t c =
     (if t = Casual then (''Let us talk about debt management!'' @ nl @ nl)
      else (''Debt Management Advice:'' @ nl @ nl)) @
     (''Effective debt management strategies:'' @ nl @ nl) @
     (''1. List all your debts with interest rates'' @ nl) @
     (''2. Prioritize high-interest debt (debt avalanche method)'' @ nl) @
     (''3. Or pay off smallest debts first (debt snowball method)'' @ nl) @
     (''4. Consider debt consolidation if applicable'' @ nl) @
     (''5. Make minimum payments on all debts'' @ nl) @
     (''6. Allocate extra funds to priority debt'' @ nl @ nl) @
     (if num_gt (monthlyExpenses d) (num_mul (monthlyIncome d) (Fin (5 / 10))) then
        ''Based on your current expenses, you may want to review your spending to free up money for debt repayment.''
      else
        ''You have about $'' @ toLocaleString E (num_sub (monthlyIncome d) (monthlyExpenses d)) @
        '' available monthly that could go toward debt repayment.'')\<close>

definition generateRetirementAdvice ::
  "User option \<Rightarrow> FinancialData \<Rightarrow> tone \<Rightarrow> complexity \<Rightarrow> string" where
  \<open>generateRetirementAdvice user d t c =
     (if t = Casual then (''Retirement planning! Let us get you set up.'' @ nl @ nl)
      else (''Retirement Planning Advice:'' @ nl @ nl)) @
     (''Key retirement planning steps:'' @ nl @ nl) @
     (''1. Start saving early - time is your biggest advantage'' @ nl) @
     (''2. Contribute to employer-sponsored plans (401k, 403b) with matching'' @ nl) @
     (''3. Open an IRA (Traditional or Roth)'' @ nl) @
     (''4. Aim to save 10-15% of your income for retirement'' @ nl) @
     (''5. Diversify your investments'' @ nl) @
     (''6. Consider your retirement timeline'' @ nl @ nl) @
     (if demographic_type_of user = Some Student then
        ''As a student, starting early gives you a huge advantage. Even small amounts now compound significantly over time.''
      else if demographic_type_of user = Some Professional then
        ''With your current savings rate, you are setting a good foundation. Consider increasing contributions to retirement accounts.''
      else [])\<close>

subsection \<open>Explanations of terms\<close>

definition explainSIP :: "tone \<Rightarrow> complexity \<Rightarrow> string" where
  \<open>explainSIP t c =
     (if t = Casual then (''SIP stands for Systematic Investment Plan!'' @ nl @ nl)
      else (''SIP (Systematic Investment Plan):'' @ nl @ nl)) @
     (''SIP is a method of investing in mutual funds where you invest a fixed amount regularly (monthly, quarterly, etc.) instead of a lump sum.'' @ nl @ nl) @
     (''Key Benefits:'' @ nl) @
     (bullet @ '' Rupee Cost Averaging - You buy more units when prices are low and fewer when prices are high'' @ nl) @
     (bullet @ '' Disciplined Investing - Regular investments build the habit of saving'' @ nl) @
     (bullet @ '' Small Amounts - You can start with as little as $500-1000 per month'' @ nl) @
     (bullet @ '' Flexibility - You can increase, decrease, pause, or stop anytime'' @ nl) @
     (bullet @ '' Power of Compounding - Your money grows over time through reinvestment'' @ nl @ nl) @
     (if c = Detailed then
        (''How it works:'' @ nl) @
        (''1. Choose a mutual fund scheme'' @ nl) @
        (''2. Decide the amount and frequency (usually monthly)'' @ nl) @
        (''3. Set up auto-debit from your bank account'' @ nl) @
        (''4. The fund house automatically invests the amount on a fixed date'' @ nl) @
        (''5. You accumulate units in the fund over time'' @ nl @ nl) @
        ''SIP is ideal for long-term goals like retirement, children's education, or buying a house.''
      else
        ''SIP is perfect for long-term goals like retirement, education, or buying a house. Start small and invest regularly!'')\<close>

definition explainMutualFund :: "tone \<Rightarrow> complexity \<Rightarrow> string" where
  \<open>explainMutualFund t c =
     (if t = Casual then (''Mutual funds are a great investment option!'' @ nl @ nl)
      else (''Mutual Funds:'' @ nl @ nl)) @
     (''A mutual fund pools money from many investors to buy a diversified portfolio of stocks, bonds, or other securities.'' @ nl @ nl) @
     (''Benefits: Professional management, diversification, liquidity, and low minimum investment.'' @ nl) @
     (''Types: Equity funds (stocks), Debt funds (bonds), Hybrid funds (mix), and Index funds.'' @ nl)\<close>

definition explainEquity :: "tone \<Rightarrow> complexity \<Rightarrow> string" where
  \<open>explainEquity t c =
     (''Equity represents ownership in a company. When you buy stocks, you own a portion of that company.'' @ nl @ nl) @
     (''Equity investments can offer higher returns but come with higher risk. Suitable for long-term goals.'' @ nl)\<close>

definition explainStocks :: "tone \<Rightarrow> complexity \<Rightarrow> string" where
  \<open>explainStocks t c =
     (''Stocks (or shares) represent ownership in a company. Buying stocks makes you a shareholder.'' @ nl @ nl) @
     (''Stock prices fluctuate based on company performance and market conditions. Research before investing.'' @ nl)\<close>

definition explainStockMarket :: "tone \<Rightarrow> complexity \<Rightarrow> string" where
  \<open>explainStockMarket t c =
     (''The stock market is where buyers and sellers trade stocks of publicly listed companies.'' @ nl @ nl) @
     (''Major indices track market performance. Investing in stocks requires understanding market trends and company fundamentals.'' @ nl)\<close>

definition explainPortfolio :: "tone \<Rightarrow> complexity \<Rightarrow> string" where
  \<open>explainPortfolio t c =
     (''A portfolio is your collection of investments (stocks, bonds, mutual funds, etc.).'' @ nl @ nl) @
     (''A well-diversified portfolio spreads risk across different asset classes and sectors.'' @ nl)\<close>

definition explainDiversification :: "tone \<Rightarrow> complexity \<Rightarrow> string" where
  \<open>explainDiversification t c =
     (''Diversification means spreading investments across different assets to reduce risk.'' @ nl @ nl) @
     (''Don't put all eggs in one basket. Invest in stocks, bonds, real estate, and other assets.'' @ nl)\<close>

definition explainETF :: "tone \<Rightarrow> complexity \<Rightarrow> string" where
  \<open>explainETF t c =
     (''ETF (Exchange Traded Fund) is a basket of securities that trades on stock exchanges like a stock.'' @ nl @ nl) @
     (''ETFs combine benefits of mutual funds (diversification) with stocks (trading flexibility). Lower fees than mutual funds.'' @ nl)\<close>

definition explainIndexFund :: "tone \<Rightarrow> complexity \<Rightarrow> string" where
  \<open>explainIndexFund t c =
     (''An index fund tracks a market index (like S&P 500) by holding the same securities in the same proportions.'' @ nl @ nl) @
     (''Low fees, passive management, and broad market exposure. Great for beginners.'' @ nl)\<close>

definition explainBond :: "tone \<Rightarrow> complexity \<Rightarrow> string" where
  \<open>explainBond t c =
     (''A bond is a loan you give to a company or government. They pay you interest and return the principal.'' @ nl @ nl) @
     (''Bonds are generally safer than stocks but offer lower returns. Good for conservative investors.'' @ nl)\<close>

definition explainFixedDeposit :: "tone \<Rightarrow> complexity \<Rightarrow> string" where
  \<open>explainFixedDeposit t c =
     (''Fixed Deposit (FD) is a bank deposit with fixed interest rate and maturity date.'' @ nl @ nl) @
     (''Safe, guaranteed returns, but lower than market investments. Good for short-term goals.'' @ nl)\<close>

definition explainRD :: "tone \<Rightarrow> complexity \<Rightarrow> string" where
  \<open>explainRD t c =
     (''Recurring Deposit (RD) lets you invest a fixed amount monthly for a fixed period.'' @ nl @ nl) @
     (''Disciplined savings with guaranteed returns. Similar to FD but with monthly contributions.'' @ nl)\<close>

definition explainPPF :: "tone \<Rightarrow> complexity \<Rightarrow> string" where
  \<open>explainPPF t c =
     (''PPF (Public Provident Fund) is a long-term savings scheme with tax benefits.'' @ nl @ nl) @
     (''15-year lock-in, tax deductions under Section 80C, and tax-free interest. Great for retirement planning.'' @ nl)\<close>

definition explainNSC :: "tone \<Rightarrow> complexity \<Rightarrow> string" where
  \<open>explainNSC t c =
     (''NSC (National Savings Certificate) is a fixed-income investment scheme.'' @ nl @ nl) @
     (''5-year maturity, tax benefits under Section 80C, and guaranteed returns backed by government.'' @ nl)\<close>

definition explainCreditScore :: "tone \<Rightarrow> complexity \<Rightarrow> string" where
  \<open>explainCreditScore t c =
     (''Credit score (300-850) reflects your creditworthiness based on payment history and debt.'' @ nl @ nl) @
     (''Higher scores (700+) get better loan rates. Pay bills on time, keep debt low, and check your report regularly.'' @ nl)\<close>

definition explainCreditCard :: "tone \<Rightarrow> complexity \<Rightarrow> string" where
  \<open>explainCreditCard t c =
     (''Credit cards let you borrow money up to a limit. Pay full balance monthly to avoid interest.'' @ nl @ nl) @
     (''Use responsibly: pay on time, avoid minimum payments, and use rewards wisely.'' @ nl)\<close>

definition explainEMI :: "tone \<Rightarrow> complexity \<Rightarrow> string" where
  \<open>explainEMI t c =
     (''EMI (Equated Monthly Installment) is the fixed monthly payment for loans.'' @ nl @ nl) @
     (''Includes principal and interest. Lower EMI = longer tenure = more total interest. Find the right balance.'' @ nl)\<close>

definition explainInterestRate :: "tone \<Rightarrow> complexity \<Rightarrow> string" where
  \<open>explainInterestRate t c =
     (''Interest rate is the cost of borrowing money or return on savings.'' @ nl @ nl) @
     (''APR (Annual Percentage Rate) shows true borrowing cost. Compare rates before taking loans.'' @ nl)\<close>

definition explainCompoundInterest :: "tone \<Rightarrow> complexity \<Rightarrow> string" where
  \<open>explainCompoundInterest t c =
     (''Compound interest earns interest on interest, making money grow faster over time.'' @ nl @ nl) @
     (''The longer you invest, the more compounding benefits you get. Start early for maximum growth!'' @ nl)\<close>

definition explainSimpleInterest :: "tone \<Rightarrow> complexity \<Rightarrow> string" where
  \<open>explainSimpleInterest t c =
     (''Simple interest is calculated only on the principal amount.'' @ nl @ nl) @
     (''Unlike compound interest, it doesn't earn interest on previous interest. Used for short-term loans.'' @ nl)\<close>

definition explainCredit :: "tone \<Rightarrow> complexity \<Rightarrow> string" where
  \<open>explainCredit t c =
     (''Credit is the ability to borrow money or access goods/services before payment.'' @ nl @ nl) @
     (''Use credit wisely: build good credit history, pay on time, and avoid excessive debt.'' @ nl)\<close>

definition explainDebit :: "tone \<Rightarrow> complexity \<Rightarrow> string" where
  \<open>explainDebit t c =
     (''Debit means money is taken out of your account immediately.'' @ nl @ nl) @
     (''Debit cards use your own money, unlike credit cards which borrow money.'' @ nl)\<close>

definition explainInsurance :: "tone \<Rightarrow> complexity \<Rightarrow> string" where
  \<open>explainInsurance t c =
     (''Insurance protects you financially from unexpected events in exchange for premiums.'' @ nl @ nl) @
     (''Types: Life, health, auto, home insurance. Choose coverage based on your needs and risk.'' @ nl)\<close>

definition explainLifeInsurance :: "tone \<Rightarrow> complexity \<Rightarrow> string" where
  \<open>explainLifeInsurance t c =
     (''Life insurance provides financial protection to your family if you pass away.'' @ nl @ nl) @
     (''Term insurance is pure protection, while whole life combines insurance with savings.'' @ nl)\<close>

definition explainHealthInsurance :: "tone \<Rightarrow> complexity \<Rightarrow> string" where
  \<open>explainHealthInsurance t c =
     (''Health insurance covers medical expenses. Essential for protection against high healthcare costs.'' @ nl @ nl) @
     (''Compare plans, check coverage, deductibles, and network hospitals before choosing.'' @ nl)\<close>

definition explainTermInsurance :: "tone \<Rightarrow> complexity \<Rightarrow> string" where
  \<open>explainTermInsurance t c =
     (''Term insurance provides pure life coverage for a fixed period at low premiums.'' @ nl @ nl) @
     (''No savings component, just protection. Best for those who need maximum coverage at minimum cost.'' @ nl)\<close>

definition explainPremium :: "tone \<Rightarrow> complexity \<Rightarrow> string" where
  \<open>explainPremium t c =
     (''Premium is the amount you pay regularly (monthly/annually) for insurance coverage.'' @ nl @ nl) @
     (''Higher premiums often mean better coverage. Compare premiums and benefits before choosing.'' @ nl)\<close>

definition explainIncomeTax :: "tone \<Rightarrow> complexity \<Rightarrow> string" where
  \<open>explainIncomeTax t c =
     (''Income tax is a tax on your earnings. Rates vary by income level and country.'' @ nl @ nl) @
     (''Use deductions and exemptions to reduce taxable income legally.'' @ nl)\<close>

definition explainGST :: "tone \<Rightarrow> complexity \<Rightarrow> string" where
  \<open>explainGST t c =
     (''GST (Goods and Services Tax) is a consumption tax on goods and services.'' @ nl @ nl) @
     (''Paid by consumers but collected by businesses. Different rates for different product categories.'' @ nl)\<close>

definition explainDeduction :: "tone \<Rightarrow> complexity \<Rightarrow> string" where
  \<open>explainDeduction t c =
     (''Tax deductions reduce your taxable income, lowering your tax bill.'' @ nl @ nl) @
     (''Common deductions: Section 80C (investments), medical expenses, home loan interest, education expenses.'' @ nl)\<close>

definition explain80C :: "tone \<Rightarrow> complexity \<Rightarrow> string" where
  \<open>explain80C t c =
     (''Section 80C allows tax deduction up to $1,500 (or equivalent) per year on eligible investments.'' @ nl @ nl) @
     (''Eligible: PPF, ELSS, NSC, life insurance premiums, home loan principal, children's tuition fees.'' @ nl)\<close>

definition explainITR :: "tone \<Rightarrow> complexity \<Rightarrow> string" where
  \<open>explainITR t c =
     (''ITR (Income Tax Return) is a form declaring your income and taxes paid for the year.'' @ nl @ nl) @
     (''File before deadline to avoid penalties. Keep documents ready and use e-filing for convenience.'' @ nl)\<close>

definition explain401k :: "tone \<Rightarrow> complexity \<Rightarrow> string" where
  \<open>explain401k t c =
     (''401(k) is a US employer-sponsored retirement plan. Contributions are pre-tax.'' @ nl @ nl) @
     (''Many employers match contributions - take full advantage! Maximum contribution limits apply.'' @ nl)\<close>

definition explainIRA :: "tone \<Rightarrow> complexity \<Rightarrow> string" where
  \<open>explainIRA t c =
     (''IRA (Individual Retirement Account) is a personal retirement savings account.'' @ nl @ nl) @
     (''Traditional IRA: tax-deferred. Roth IRA: post-tax contributions, tax-free withdrawals. Choose based on your situation.'' @ nl)\<close>

definition explainPension :: "tone \<Rightarrow> complexity \<Rightarrow> string" where
  \<open>explainPension t c =
     (''Pension is a regular payment after retirement, typically from employer or government.'' @ nl @ nl) @
     (''Plan early for retirement. Consider pension plans, 401(k), IRA, and other retirement accounts.'' @ nl)\<close>

definition explainEPF :: "tone \<Rightarrow> complexity \<Rightarrow> string" where
  \<open>explainEPF t c =
     (''EPF (Employee Provident Fund) is a retirement savings scheme for employees.'' @ nl @ nl) @
     (''Both employer and employee contribute. Long-term savings with tax benefits and guaranteed returns.'' @ nl)\<close>

definition explainHomeLoan :: "tone \<Rightarrow> complexity \<Rightarrow> string" where
  \<open>explainHomeLoan t c =
     (''Home loan helps you buy property by borrowing money from a bank.'' @ nl @ nl) @
     (''Compare interest rates, processing fees, and tenure. Use EMI calculators to plan payments.'' @ nl)\<close>

definition explainRealEstate :: "tone \<Rightarrow> complexity \<Rightarrow> string" where
  \<open>explainRealEstate t c =
     (''Real estate includes land and buildings. Can be residential, commercial, or land.'' @ nl @ nl) @
     (''Real estate can appreciate but requires maintenance. Consider location, market trends, and your goals.'' @ nl)\<close>

definition explainEmergencyFund :: "tone \<Rightarrow> complexity \<Rightarrow> string" where
  \<open>explainEmergencyFund t c =
     (''Emergency fund is 3-6 months of expenses saved for unexpected situations.'' @ nl @ nl) @
     (''Keep it in a separate, easily accessible account. Don't use it for investments or expenses.'' @ nl)\<close>

definition explainSavingsAccount :: "tone \<Rightarrow> complexity \<Rightarrow> string" where
  \<open>explainSavingsAccount t c =
     (''Savings account earns interest on your deposits while keeping money accessible.'' @ nl @ nl) @
     (''Low interest rates but liquid. Good for emergency funds and short-term savings.'' @ nl)\<close>

definition explainCurrentAccount :: "tone \<Rightarrow> complexity \<Rightarrow> string" where
  \<open>explainCurrentAccount t c =
     (''Current account is for business transactions with no interest but unlimited transactions.'' @ nl @ nl) @
     (''Used by businesses for daily operations. Different from savings accounts.'' @ nl)\<close>

definition explainLoan :: "tone \<Rightarrow> complexity \<Rightarrow> string" where
  \<open>explainLoan t c =
     (''A loan is borrowed money that must be repaid with interest over time.'' @ nl @ nl) @
     (''Types: Personal, home, car, education loans. Compare rates, tenure, and terms before borrowing.'' @ nl)\<close>

definition explainPersonalLoan :: "tone \<Rightarrow> complexity \<Rightarrow> string" where
  \<open>explainPersonalLoan t c =
     (''Personal loan is unsecured credit for personal needs without collateral.'' @ nl @ nl) @
     (''Higher interest rates than secured loans. Use only for essential needs and pay off quickly.'' @ nl)\<close>

definition explainEducationLoan :: "tone \<Rightarrow> complexity \<Rightarrow> string" where
  \<open>explainEducationLoan t c =
     (''Education loan helps finance education expenses. Often has tax benefits.'' @ nl @ nl) @
     (''Lower interest rates, longer repayment periods. Research scholarships and grants first.'' @ nl)\<close>

definition explainFinancialPlanning :: "tone \<Rightarrow> complexity \<Rightarrow> string" where
  \<open>explainFinancialPlanning t c =
     (''Financial planning is managing money to achieve life goals through budgeting, saving, and investing.'' @ nl @ nl) @
     (''Steps: Set goals, create budget, build emergency fund, invest for growth, protect with insurance, plan retirement.'' @ nl)\<close>

definition explainAssetAllocation :: "tone \<Rightarrow> complexity \<Rightarrow> string" where
  \<open>explainAssetAllocation t c =
     (''Asset allocation is dividing investments among different asset classes (stocks, bonds, cash).'' @ nl @ nl) @
     (''Balance risk and return based on age, goals, and risk tolerance. Rebalance periodically.'' @ nl)\<close>

definition explainRisk :: "tone \<Rightarrow> complexity \<Rightarrow> string" where
  \<open>explainRisk t c =
     (''Investment risk is the possibility of losing money. Higher risk = higher potential returns.'' @ nl @ nl) @
     (''Assess your risk tolerance: Conservative (bonds, FDs), Moderate (balanced funds), Aggressive (stocks, equity).'' @ nl)\<close>

definition explainInflation :: "tone \<Rightarrow> complexity \<Rightarrow> string" where
  \<open>explainInflation t c =
     (''Inflation is the increase in prices over time, reducing purchasing power.'' @ nl @ nl) @
     (''Your money loses value if returns don't beat inflation. Invest in growth assets to beat inflation.'' @ nl)\<close>


definition explainTax :: "tone \<Rightarrow> complexity \<Rightarrow> string" where
  "explainTax t c = generateTaxAdvice None emptyFinancialData t c"

definition explainRetirement :: "tone \<Rightarrow> complexity \<Rightarrow> string" where
  "explainRetirement t c = generateRetirementAdvice None emptyFinancialData t c"

definition explainMortgage :: "tone \<Rightarrow> complexity \<Rightarrow> string" where
  "explainMortgage t c = explainHomeLoan t c"

definition explainProperty :: "tone \<Rightarrow> complexity \<Rightarrow> string" where
  "explainProperty t c = explainRealEstate t c"

definition explainFinancialGoal :: "tone \<Rightarrow> complexity \<Rightarrow> string" where
  "explainFinancialGoal t c = generateGoalsAdvice None t c"

definition explainDebt :: "env \<Rightarrow> tone \<Rightarrow> complexity \<Rightarrow> string" where
  "explainDebt E t c = generateDebtAdvice E None emptyFinancialData t c"

section \<open>Rule-based service: the Advice Dispatcher\<close>

subsection \<open>Topic extraction\<close>

text \<open>
  \<open>extractTopic\<close> tries four regular expressions in turn, each of the shape
  \<^verbatim>\<open>/what is (?:a |an |the )?([a-z\s]+?)(?:\?|$|\.)/i\<close> (the last two without the
  articles). Such an expression matches at a position when the fixed words are there,
  followed by an optional article and a run of letters and white space that is not empty
  and ends at a question mark, at a full stop or at the end of the text; the run is the
  captured group. Since neither terminator is a letter or white space, the lazy group can
  only stop at the end of the longest run. The article is tried first and given up when
  the rest does not match. The leftmost position with a match counts. Letters are
  compared without regard to case; in an expression without the Unicode flag only the
  letters A to Z and a to z match a letter of the pattern or the class \<open>a-z\<close> this way.
  The class \<open>\s\<close> is the white space of the language.
\<close>

definition is_letter :: "char \<Rightarrow> bool" where
  "is_letter c = (c \<in> set ''abcdefghijklmnopqrstuvwxyzABCDEFGHIJKLMNOPQRSTUVWXYZ'')"

definition starts_ci :: "string \<Rightarrow> string \<Rightarrow> bool" where
  "starts_ci s w = startsWith (map lower_char s) w"

text \<open>
  The number of bytes of the longest run of letters and white space at the start of a
  text; the first argument counts the bytes that are left of a white space character.
\<close>

fun topic_run :: "nat \<Rightarrow> string \<Rightarrow> nat" where
  "topic_run k [] = 0"
| "topic_run k (c # s) =
     (if 0 < k then Suc (topic_run (k - 1) s)
      else if is_letter c then Suc (topic_run 0 s)
      else if 0 < space_at white_space (c # s)
      then Suc (topic_run (space_at white_space (c # s) - 1) s)
      else 0)"

definition capture_run :: "string \<Rightarrow> string option" where
  "capture_run s =
     (let run = take (topic_run 0 s) s; after = drop (topic_run 0 s) s
      in if run \<noteq> [] \<and> (case after of [] \<Rightarrow> True | c # _ \<Rightarrow> c = CHR ''?'' \<or> c = CHR ''.'')
         then Some run else None)"

fun capture_after :: "string list \<Rightarrow> string \<Rightarrow> string option" where
  "capture_after [] s = None"
| "capture_after (a # as) s =
     (case (if starts_ci s a then capture_run (drop (length a) s) else None) of
        Some run \<Rightarrow> Some run
      | None \<Rightarrow> capture_after as s)"

definition match_here :: "string \<Rightarrow> string list \<Rightarrow> string \<Rightarrow> string option" where
  "match_here w articles s =
     (if starts_ci s w then capture_after (articles @ ['''']) (drop (length w) s) else None)"

fun match_first :: "string \<Rightarrow> string list \<Rightarrow> string \<Rightarrow> string option" where
  "match_first w articles [] = None"
| "match_first w articles (c # s) =
     (case match_here w articles (c # s) of
        Some run \<Rightarrow> Some run
      | None \<Rightarrow> match_first w articles s)"

definition patterns :: "(string \<times> string list) list" where
  "patterns =
     [(''what is '', [''a '', ''an '', ''the '']),
      (''what are '', [''a '', ''an '', ''the '']),
      (''explain '', []),
      (''tell me about '', [])]"

fun first_capture :: "(string \<times> string list) list \<Rightarrow> string \<Rightarrow> string option" where
  "first_capture [] message = None"
| "first_capture ((w, articles) # ps) message =
     (case match_first w articles message of
        Some run \<Rightarrow> Some run
      | None \<Rightarrow> first_capture ps message)"

definition extractTopic :: "env \<Rightarrow> string \<Rightarrow> string" where
  "extractTopic E message =
     (case first_capture patterns message of
        Some run \<Rightarrow> toLowerCase E (trim run)
      | None \<Rightarrow> [])"

subsection \<open>Explanation by keyword family\<close>

definition financialKeywords :: "string list" where
  "financialKeywords =
     [''finance'', ''financial'', ''money'', ''investment'', ''saving'', ''spending'',
      ''budget'', ''income'', ''expense'', ''wealth'', ''capital'', ''asset'', ''liability'',
      ''revenue'', ''profit'', ''loss'', ''return'', ''yield'', ''dividend'', ''interest'',
      ''loan'', ''credit'', ''debt'', ''equity'', ''stock'', ''share'', ''bond'', ''security'',
      ''fund'', ''portfolio'', ''market'', ''trading'', ''broker'', ''account'', ''bank'',
      ''insurance'', ''tax'', ''retirement'', ''pension'', ''annuity'', ''estate'',
      ''mortgage'', ''refinance'', ''liquidity'', ''volatility'', ''leverage'', ''margin'']"

definition generateFinancialExplanation ::
  "env \<Rightarrow> string \<Rightarrow> string \<Rightarrow> tone \<Rightarrow> complexity \<Rightarrow> string" where
  \<open>generateFinancialExplanation E userMessage message t c =
     (let topic = extractTopic E message in
      if topic = [] then []
      else if \<not> list_ex (\<lambda>keyword. includes_str message keyword \<or> includes_str topic keyword)
                   financialKeywords
      then []
      else
        (if t = Casual then ''Let me help you understand '' @ topic @ (''!'' @ nl @ nl)
         else ''Regarding '' @ topic @ ('':'' @ nl @ nl)) @
        ''I want to provide you with accurate information. '' @ topic @
        ('' is a financial term, and the specifics can vary based on context and location.'' @ nl @ nl) @
        (if includes_str topic ''investment'' \<or> includes_str topic ''invest'' \<or>
            includes_str topic ''fund'' \<or> includes_str topic ''stock'' \<or>
            includes_str topic ''equity'' then
           (''This appears to be related to investing. Here are some general principles:'' @ nl) @
           (bullet @ '' Research before investing'' @ nl) @
           (bullet @ '' Diversify your portfolio'' @ nl) @
           (bullet @ '' Understand your risk tolerance'' @ nl) @
           (bullet @ '' Consider your time horizon'' @ nl) @
           (bullet @ '' Start with low-cost index funds if you're a beginner'' @ nl @ nl) @
           ''Would you like me to explain a specific investment term like SIP, mutual funds, or stocks?''
         else if includes_str topic ''loan'' \<or> includes_str topic ''debt'' \<or>
                 includes_str topic ''credit'' \<or> includes_str topic ''borrow'' then
           (''This seems related to borrowing or credit. Key points:'' @ nl) @
           (bullet @ '' Compare interest rates before borrowing'' @ nl) @
           (bullet @ '' Understand all terms and fees'' @ nl) @
           (bullet @ '' Only borrow what you can afford to repay'' @ nl) @
           (bullet @ '' Maintain a good credit score'' @ nl) @
           (bullet @ '' Pay off high-interest debt first'' @ nl @ nl) @
           ''Would you like to know about specific loan types like personal loans, home loans, or how to manage debt?''
         else if includes_str topic ''tax'' \<or> includes_str topic ''deduction'' \<or>
                 includes_str topic ''income tax'' then
           (''This appears to be a tax-related question. Important points:'' @ nl) @
           (bullet @ '' Tax laws vary by country and change frequently'' @ nl) @
           (bullet @ '' Use tax deductions and exemptions legally'' @ nl) @
           (bullet @ '' Keep records of all financial transactions'' @ nl) @
           (bullet @ '' Consider consulting a tax professional for specific advice'' @ nl @ nl) @
           ''Would you like to know about tax deductions, Section 80C, or filing tax returns?''
         else if includes_str topic ''insurance'' \<or> includes_str topic ''premium'' \<or>
                 includes_str topic ''coverage'' then
           (''This seems related to insurance. Key considerations:'' @ nl) @
           (bullet @ '' Choose coverage based on your needs and risk'' @ nl) @
           (bullet @ '' Compare premiums and benefits'' @ nl) @
           (bullet @ '' Understand deductibles and coverage limits'' @ nl) @
           (bullet @ '' Review and update policies regularly'' @ nl @ nl) @
           ''Would you like to know about life insurance, health insurance, or term insurance?''
         else if includes_str topic ''saving'' \<or> includes_str topic ''emergency'' \<or>
                 includes_str topic ''fund'' then
           (''This appears related to savings. Important points:'' @ nl) @
           (bullet @ '' Build an emergency fund (3-6 months of expenses)'' @ nl) @
           (bullet @ '' Automate your savings'' @ nl) @
           (bullet @ '' Aim to save at least 10-20% of your income'' @ nl) @
           (bullet @ '' Save for specific goals separately'' @ nl @ nl) @
           ''Would you like to know about emergency funds, savings strategies, or setting financial goals?''
         else if includes_str topic ''retirement'' \<or> includes_str topic ''pension'' \<or>
                 includes_str topic ''401k'' \<or> includes_str topic ''ira'' then
           (''This seems related to retirement planning. Key steps:'' @ nl) @
           (bullet @ '' Start saving early for retirement'' @ nl) @
           (bullet @ '' Contribute to employer-sponsored plans (401k, 403b)'' @ nl) @
           (bullet @ '' Consider IRAs (Traditional or Roth)'' @ nl) @
           (bullet @ '' Aim to save 10-15% of income for retirement'' @ nl) @
           (bullet @ '' Diversify your retirement investments'' @ nl @ nl) @
           ''Would you like to know about 401(k), IRA, or general retirement planning?''
         else
           (''Here are some general financial principles that might help:'' @ nl) @
           (bullet @ '' Create and stick to a budget'' @ nl) @
           (bullet @ '' Build an emergency fund'' @ nl) @
           (bullet @ '' Pay off high-interest debt'' @ nl) @
           (bullet @ '' Invest for long-term goals'' @ nl) @
           (bullet @ '' Protect yourself with insurance'' @ nl) @
           (bullet @ '' Plan for retirement early'' @ nl @ nl) @
           ''Could you be more specific about what aspect of '' @ topic @
           '' you'd like to understand?''))\<close>

subsection \<open>The table of terms\<close>

text \<open>
  The table is an object literal whose keys are the terms; it is enumerated in the order
  in which the keys are written (none of them is an array index). Each handler is a
  closure over the \<open>complexity\<close> argument of \<open>answerFinancialQuestion\<close> and receives the
  tone, the complexity, the user and the financial data; both calls of a handler pass the
  financial data, so the alternative of the budget handler for missing data is never
  taken. A handler returns a text or raises.
\<close>

type_synonym handler =
  "tone \<Rightarrow> complexity \<Rightarrow> User option \<Rightarrow> FinancialData \<Rightarrow> exn + string"

definition financialTerms :: "env \<Rightarrow> complexity \<Rightarrow> (string \<times> handler) list" where
  "financialTerms E complexity =
     [(''sip'', \<lambda>t c u d. Inr (explainSIP t complexity)),
      (''systematic investment plan'', \<lambda>t c u d. Inr (explainSIP t complexity)),
      (''mutual fund'', \<lambda>t c u d. Inr (explainMutualFund t complexity)),
      (''mutual funds'', \<lambda>t c u d. Inr (explainMutualFund t complexity)),
      (''equity'', \<lambda>t c u d. Inr (explainEquity t complexity)),
      (''stocks'', \<lambda>t c u d. Inr (explainStocks t complexity)),
      (''stock market'', \<lambda>t c u d. Inr (explainStockMarket t complexity)),
      (''portfolio'', \<lambda>t c u d. Inr (explainPortfolio t complexity)),
      (''diversification'', \<lambda>t c u d. Inr (explainDiversification t complexity)),
      (''diversify'', \<lambda>t c u d. Inr (explainDiversification t complexity)),
      (''etf'', \<lambda>t c u d. Inr (explainETF t complexity)),
      (''exchange traded fund'', \<lambda>t c u d. Inr (explainETF t complexity)),
      (''index fund'', \<lambda>t c u d. Inr (explainIndexFund t complexity)),
      (''bond'', \<lambda>t c u d. Inr (explainBond t complexity)),
      (''bonds'', \<lambda>t c u d. Inr (explainBond t complexity)),
      (''fixed deposit'', \<lambda>t c u d. Inr (explainFixedDeposit t complexity)),
      (''fd'', \<lambda>t c u d. Inr (explainFixedDeposit t complexity)),
      (''recurring deposit'', \<lambda>t c u d. Inr (explainRD t complexity)),
      (''rd'', \<lambda>t c u d. Inr (explainRD t complexity)),
      (''ppf'', \<lambda>t c u d. Inr (explainPPF t complexity)),
      (''public provident fund'', \<lambda>t c u d. Inr (explainPPF t complexity)),
      (''nsc'', \<lambda>t c u d. Inr (explainNSC t complexity)),
      (''national savings certificate'', \<lambda>t c u d. Inr (explainNSC t complexity)),
      (''credit score'', \<lambda>t c u d. Inr (explainCreditScore t complexity)),
      (''credit card'', \<lambda>t c u d. Inr (explainCreditCard t complexity)),
      (''emi'', \<lambda>t c u d. Inr (explainEMI t complexity)),
      (''equated monthly installment'', \<lambda>t c u d. Inr (explainEMI t complexity)),
      (''interest rate'', \<lambda>t c u d. Inr (explainInterestRate t complexity)),
      (''compound interest'', \<lambda>t c u d. Inr (explainCompoundInterest t complexity)),
      (''simple interest'', \<lambda>t c u d. Inr (explainSimpleInterest t complexity)),
      (''credit'', \<lambda>t c u d. Inr (explainCredit t complexity)),
      (''debit'', \<lambda>t c u d. Inr (explainDebit t complexity)),
      (''insurance'', \<lambda>t c u d. Inr (explainInsurance t complexity)),
      (''life insurance'', \<lambda>t c u d. Inr (explainLifeInsurance t complexity)),
      (''health insurance'', \<lambda>t c u d. Inr (explainHealthInsurance t complexity)),
      (''term insurance'', \<lambda>t c u d. Inr (explainTermInsurance t complexity)),
      (''premium'', \<lambda>t c u d. Inr (explainPremium t complexity)),
      (''tax'', \<lambda>t c u d. Inr (explainTax t complexity)),
      (''income tax'', \<lambda>t c u d. Inr (explainIncomeTax t complexity)),
      (''gst'', \<lambda>t c u d. Inr (explainGST t complexity)),
      (''deduction'', \<lambda>t c u d. Inr (explainDeduction t complexity)),
      (''tax deduction'', \<lambda>t c u d. Inr (explainDeduction t complexity)),
      (''80c'', \<lambda>t c u d. Inr (explain80C t complexity)),
      (''section 80c'', \<lambda>t c u d. Inr (explain80C t complexity)),
      (''itr'', \<lambda>t c u d. Inr (explainITR t complexity)),
      (''income tax return'', \<lambda>t c u d. Inr (explainITR t complexity)),
      (''retirement'', \<lambda>t c u d. Inr (explainRetirement t complexity)),
      (''401k'', \<lambda>t c u d. Inr (explain401k t complexity)),
      (''ira'', \<lambda>t c u d. Inr (explainIRA t complexity)),
      (''pension'', \<lambda>t c u d. Inr (explainPension t complexity)),
      (''epf'', \<lambda>t c u d. Inr (explainEPF t complexity)),
      (''employee provident fund'', \<lambda>t c u d. Inr (explainEPF t complexity)),
      (''home loan'', \<lambda>t c u d. Inr (explainHomeLoan t complexity)),
      (''mortgage'', \<lambda>t c u d. Inr (explainMortgage t complexity)),
      (''real estate'', \<lambda>t c u d. Inr (explainRealEstate t complexity)),
      (''property'', \<lambda>t c u d. Inr (explainProperty t complexity)),
      (''emergency fund'', \<lambda>t c u d. Inr (explainEmergencyFund t complexity)),
      (''savings account'', \<lambda>t c u d. Inr (explainSavingsAccount t complexity)),
      (''current account'', \<lambda>t c u d. Inr (explainCurrentAccount t complexity)),
      (''financial goal'', \<lambda>t c u d. Inr (explainFinancialGoal t complexity)),
      (''debt'', \<lambda>t c u d. Inr (explainDebt E t complexity)),
      (''loan'', \<lambda>t c u d. Inr (explainLoan t complexity)),
      (''personal loan'', \<lambda>t c u d. Inr (explainPersonalLoan t complexity)),
      (''education loan'', \<lambda>t c u d. Inr (explainEducationLoan t complexity)),
      (''budget'', \<lambda>t c u d. generateBudgetResponse E (generateBudgetSummary E d) t complexity),
      (''financial planning'', \<lambda>t c u d. Inr (explainFinancialPlanning t complexity)),
      (''asset allocation'', \<lambda>t c u d. Inr (explainAssetAllocation t complexity)),
      (''risk'', \<lambda>t c u d. Inr (explainRisk t complexity)),
      (''inflation'', \<lambda>t c u d. Inr (explainInflation t complexity))]"

subsection \<open>Questions about the user's own data\<close>

text \<open>
  Three of the answers call \<open>toLocaleString\<close> on a field of the stored data, which
  raises a type error when the field is \<open>null\<close>; the other two compute with the fields.
\<close>

definition answerSpecificQuestion ::
  "env \<Rightarrow> string \<Rightarrow> User option \<Rightarrow> FinancialData \<Rightarrow> tone \<Rightarrow> complexity \<Rightarrow> exn + string" where
  \<open>answerSpecificQuestion E userMessage user d t c =
     (let message = toLowerCase E userMessage in
      if includes_str message ''how much'' \<and> includes_str message ''spend'' then
        (if monthlyExpenses d = Null then Inl TypeError
         else Inr (''You are currently spending $'' @ toLocaleString E (monthlyExpenses d) @
                   '' per month.''))
      else if includes_str message ''how much'' \<and>
              (includes_str message ''earn'' \<or> includes_str message ''income'') then
        (if monthlyIncome d = Null then Inl TypeError
         else Inr (''Your monthly income is $'' @ toLocaleString E (monthlyIncome d) @ ''.''))
      else if includes_str message ''how much'' \<and>
              (includes_str message ''save'' \<or> includes_str message ''left'') then
        (let savings = num_sub (monthlyIncome d) (monthlyExpenses d) in
         Inr (''You are saving $'' @ toLocaleString E savings @ '' per month, which is '' @
              toFixed1 (numberToString E) (num_mul (num_div savings (monthlyIncome d)) (Fin 100)) @
              ''% of your income.''))
      else if includes_str message ''what is my'' \<and> includes_str message ''balance'' then
        (if totalBalance d = Null then Inl TypeError
         else Inr (''Your current balance is $'' @ toLocaleString E (totalBalance d) @ ''.''))
      else if includes_str message ''what is my'' \<and> includes_str message ''savings rate'' then
        (let rate = savings_rate d in
         Inr (''Your savings rate is '' @ toFixed1 (numberToString E) rate @ ''%. '' @
              (if num_lt rate (Fin 10) then
                 ''Consider aiming for at least 10-20% for better financial health.''
               else if num_lt rate (Fin 20) then
                 ''That is good! Consider increasing to 20% for optimal savings.''
               else ''Excellent! You are saving at an optimal rate.'')))
      else
        Inr ((''I understand you are asking about your finances. Could you be more specific? For example:'' @ nl) @
             (bullet @ '' "How much am I spending?"'' @ nl) @
             (bullet @ '' "What is my savings rate?"'' @ nl) @
             (bullet @ '' "How much do I earn?"'')))\<close>

subsection \<open>The knowledge base\<close>

definition is_explain_question :: "string \<Rightarrow> bool" where
  "is_explain_question message =
     (includes_str message ''what is'' \<or> includes_str message ''what are'' \<or>
      includes_str message ''explain'' \<or> includes_str message ''tell me about'')"

definition answer_after_terms ::
  "env \<Rightarrow> string \<Rightarrow> string \<Rightarrow> User option \<Rightarrow> FinancialData \<Rightarrow> tone \<Rightarrow> complexity \<Rightarrow>
   exn + string" where
  "answer_after_terms E userMessage message user d t c =
     (if includes_str message ''where should i invest'' \<or> includes_str message ''where to invest'' \<or>
         includes_str message ''how to invest'' then
        Inr (generateInvestmentAdvice user d t c)
      else if includes_str message ''how to save'' \<or> includes_str message ''how can i save'' \<or>
              includes_str message ''save more'' then
        Inr (generateSavingsAdvice E user d t c)
      else if includes_str message ''show my budget'' \<or> includes_str message ''my budget'' \<or>
              includes_str message ''budget summary'' then
        generateBudgetResponse E (generateBudgetSummary E d) t c
      else if includes_str message ''spending'' \<or> includes_str message ''where does my money go'' \<or>
              includes_str message ''spending insights'' then
        Inr (generateInsightsResponse (generateSpendingInsights d) t c)
      else if is_explain_question message then
        Inr (generateFinancialExplanation E userMessage message t c)
      else Inr [])"

text \<open>
  \<open>answerFinancialQuestion\<close>: the first loop returns the handler of the first term that
  the message includes; for an explanation question whose topic is not empty the second
  loop returns the handler of the first term that the topic includes or that includes the
  topic; the remaining checks follow.
\<close>

definition answerFinancialQuestion ::
  "env \<Rightarrow> string \<Rightarrow> string \<Rightarrow> User option \<Rightarrow> FinancialData \<Rightarrow> tone \<Rightarrow> complexity \<Rightarrow>
   string \<Rightarrow> exn + string" where
  "answerFinancialQuestion E userMessage message user d t c fullContext =
     (case find (\<lambda>(term, h). includes_str message term) (financialTerms E c) of
        Some (term, h) \<Rightarrow> h t c user d
      | None \<Rightarrow>
          (case (if is_explain_question message \<and> extractTopic E message \<noteq> []
                 then find (\<lambda>(term, h). includes_str (extractTopic E message) term \<or>
                                         includes_str term (extractTopic E message))
                        (financialTerms E c)
                 else None) of
             Some (term, h) \<Rightarrow> h t c user d
           | None \<Rightarrow> answer_after_terms E userMessage message user d t c))"

subsection \<open>Conversational responses\<close>

definition pick_greeting :: "env \<Rightarrow> string list \<Rightarrow> string" where
  "pick_greeting E greetings =
     (let i = \<lfloor>random E * of_nat (length greetings)\<rfloor>
      in if 0 \<le> i \<and> nat i < length greetings then greetings ! nat i else ''undefined'')"

definition generateGeneralResponse ::
  "env \<Rightarrow> string \<Rightarrow> User option \<Rightarrow> FinancialData \<Rightarrow> tone \<Rightarrow> complexity \<Rightarrow>
   ChatMessage list \<Rightarrow> string" where
  \<open>generateGeneralResponse E userMessage user d t c conversationHistory =
     (let greetings = (if t = Casual then [''Hey!'', ''Hi there!'', ''What is up?'']
                       else [''Hello!'', ''Greetings!'', ''Good day!'']);
          greeting = pick_greeting E greetings;
          isContinuation = (length conversationHistory > 0);
          recentTopics = join '' '' (map (\<lambda>m. toLowerCase E (content_m m))
                                        (slice_last 3 conversationHistory));
          message = toLowerCase E userMessage
      in
      if includes_str message ''hello'' \<or> includes_str message ''hi'' \<or>
         includes_str message ''hey'' \<or> message = ''hi'' \<or> message = ''hello'' then
        (let userName = (case user of
                           None \<Rightarrow> []
                         | Some u \<Rightarrow> if fullName u \<noteq> []
                                     then '', '' @ takeWhile (\<lambda>ch. ch \<noteq> CHR '' '') (fullName u)
                                     else [])
         in greeting @ userName @ (''! I am FINOVA, your personal financial assistant.'' @ nl @ nl) @
            (''I can help you with:'' @ nl) @
            (bullet @ '' Budget planning and summaries'' @ nl) @
            (bullet @ '' Savings strategies and goals'' @ nl) @
            (bullet @ '' Investment advice'' @ nl) @
            (bullet @ '' Tax planning'' @ nl) @
            (bullet @ '' Spending insights and analysis'' @ nl) @
            (bullet @ '' Debt management'' @ nl) @
            (bullet @ '' Retirement planning'' @ nl @ nl) @
            ''What would you like to know about your finances today?'')
      else if includes_str message ''thank'' \<or> includes_str message ''thanks'' then
        ''You are welcome! I am here anytime you need financial advice. Is there anything else I can help you with?''
      else if includes_str message ''help'' \<or> message = ''help'' then
        (''I can help you with various financial topics!'' @ nl @ nl) @
        (''Try asking me:'' @ nl) @
        (bullet @ '' "Show me my budget summary"'' @ nl) @
        (bullet @ '' "How much am I spending?"'' @ nl) @
        (bullet @ '' "How can I save more money?"'' @ nl) @
        (bullet @ '' "What should I invest in?"'' @ nl) @
        (bullet @ '' "Give me spending insights"'' @ nl) @
        (bullet @ '' "How is my financial health?"'' @ nl @ nl) @
        ''Or ask me any specific financial question!''
      else if isContinuation \<and> recentTopics \<noteq> [] then
        greeting @ '' '' @
        (if includes_str recentTopics ''budget'' \<or> includes_str recentTopics ''summary'' then
           ''Continuing on your budget discussion. ''
         else if includes_str recentTopics ''save'' \<or> includes_str recentTopics ''saving'' then
           ''Regarding savings, ''
         else if includes_str recentTopics ''invest'' \<or> includes_str recentTopics ''investment'' then
           ''About investments, ''
         else if includes_str recentTopics ''spending'' \<or> includes_str recentTopics ''expense'' then
           ''On spending, ''
         else []) @
        (''I can help you with various financial topics. Could you be more specific? For example:'' @ nl) @
        (bullet @ '' "Show my budget"'' @ nl) @
        (bullet @ '' "How can I save more?"'' @ nl) @
        (bullet @ '' "Investment advice"'' @ nl) @
        (bullet @ '' "Spending analysis"'')
      else
        greeting @ ('' I am here to help with your financial questions!'' @ nl @ nl) @
        (''I want to make sure I give you the best answer. Could you be more specific? For example:'' @ nl @ nl) @
        (bullet @ '' Ask about your budget: "Show my budget summary" or "How much am I spending?"'' @ nl) @
        (bullet @ '' Get savings advice: "How can I save more money?" or "What is a good savings rate?"'' @ nl) @
        (bullet @ '' Investment help: "Where should I invest?" or "Investment advice for beginners"'' @ nl) @
        (bullet @ '' Spending analysis: "Show my spending insights" or "Where does my money go?"'' @ nl) @
        (bullet @ '' Financial health: "How am I doing financially?" or "Am I on track?"'' @ nl @ nl) @
        ''What specific financial topic can I help you with?'')\<close>

subsection \<open>\<open>AIService.generateResponse\<close>\<close>

definition isQuestion :: "string \<Rightarrow> bool" where
  "isQuestion message =
     (includes_str message ''?'' \<or> includes_str message ''how'' \<or> includes_str message ''what'' \<or>
      includes_str message ''why'' \<or> includes_str message ''when'' \<or>
      includes_str message ''where'' \<or> includes_str message ''which'' \<or>
      includes_str message ''can i'' \<or> includes_str message ''should i'' \<or>
      includes_str message ''do i'' \<or> includes_str message ''explain'' \<or>
      includes_str message ''tell me about'')"

text \<open>
  The dispatcher. The delay at its start only passes time. The store is read, never
  written. The result carries an empty list of suggestions; the summary and the insights
  are attached to an answer of the knowledge base when the message names them. The
  question about the user's own data is asked first, and only for a message that looks
  like one; when its answer is not used the knowledge base is asked. Nothing is caught:
  what either of them raises is raised by the dispatcher (the promise is rejected).
  \<open>knowledge_answer\<close> is the part of the dispatcher that follows the call of the
  knowledge base.
\<close>

definition knowledge_answer ::
  "env \<Rightarrow> string \<Rightarrow> string \<Rightarrow> User option \<Rightarrow> FinancialData \<Rightarrow> tone \<Rightarrow> complexity \<Rightarrow>
   ChatMessage list \<Rightarrow> string \<Rightarrow> AIResponse" where
  "knowledge_answer E userMessage message user financialData t c conversationHistory response =
     (if response \<noteq> [] \<and> \<not> includes_str response ''Could you be more specific'' \<and>
         \<not> includes_str response ''I want to make sure''
      then \<lparr> content = response, suggestions = Some [],
             budgetSummary =
               (if includes_str message ''budget'' \<or> includes_str message ''summary'' \<or>
                   includes_str message ''overview''
                then Some (generateBudgetSummary E financialData) else None),
             insights =
               (if includes_str message ''spending'' \<or> includes_str message ''expense'' \<or>
                   includes_str message ''insight''
                then Some (generateSpendingInsights financialData) else None) \<rparr>
      else \<lparr> content = generateGeneralResponse E userMessage user financialData t c
                         conversationHistory,
             suggestions = Some [], budgetSummary = None, insights = None \<rparr>)"

definition generateResponse ::
  "env \<Rightarrow> localStorage \<Rightarrow> string \<Rightarrow> ChatMessage list \<Rightarrow> exn + AIResponse" where
  "generateResponse E ls userMessage conversationHistory =
     (let (user, financialData) = getUserContext ls;
          (t, c) = getDemographicTone user;
          message = trim (toLowerCase E userMessage);
          recentContext = toLowerCase E (join '' '' (map content_m (slice_last 5 conversationHistory)));
          fullContext = recentContext @ '' '' @ message
      in
      case (if isQuestion message \<and>
               (includes_str message ''how much'' \<or> includes_str message ''what is my'' \<or>
                includes_str message ''my'')
            then (case answerSpecificQuestion E userMessage user financialData t c of
                    Inl e \<Rightarrow> Inl e
                  | Inr dataAnswer \<Rightarrow>
                      if dataAnswer \<noteq> [] \<and>
                         \<not> includes_str dataAnswer ''Could you be more specific''
                      then Inr (Some dataAnswer) else Inr None)
            else Inr None) of
        Inl e \<Rightarrow> Inl e
      | Inr (Some dataAnswer) \<Rightarrow>
          Inr \<lparr> content = dataAnswer, suggestions = Some [], budgetSummary = None,
                insights = None \<rparr>
      | Inr None \<Rightarrow>
          (case answerFinancialQuestion E userMessage message user financialData t c
                  fullContext of
             Inl e \<Rightarrow> Inl e
           | Inr response \<Rightarrow>
               Inr (knowledge_answer E userMessage message user financialData t c
                      conversationHistory response)))"

section \<open>Remote Assistant Adapter (class AIServiceHuggingFace)\<close>

subsection \<open>The remote endpoint\<close>

text \<open>
  A request is answered by the network, modelled as a function from the request to the
  outcome of \<open>fetch\<close>: nothing when \<open>fetch\<close> rejects, otherwise a response with its \<open>ok\<close>
  flag, its status and the outcome of \<open>response.json()\<close> (nothing when the body is not
  JSON). The sampling parameters other than \<open>max_new_tokens\<close> are the same in both
  requests and are left out. A JSON object lists each key once.
\<close>

datatype jsval =
    JNull
  | JBool bool
  | JNum jsnum
  | JStr string
  | JArr "jsval list"
  | JObj "(string \<times> jsval) list"

record request =
  url :: string
  authorization :: "string option"
  inputs :: string
  max_new_tokens :: nat

record response =
  ok :: bool
  status :: nat
  json :: "jsval option"

record remote =
  HF_TOKEN :: "string option"
  fetch :: "request \<Rightarrow> response option"

definition HF_API_URL :: string where
  \<open>HF_API_URL = ''https://api-inference.huggingface.co/models/'' @ ''ibm-granite/granite-3.3-8b-instruct''\<close>

definition HF_FALLBACK_URL :: string where
  \<open>HF_FALLBACK_URL = ''https://api-inference.huggingface.co/models/'' @ ''microsoft/Phi-3-mini-4k-instruct''\<close>

subsection \<open>The prompt\<close>

definition tone_name :: "tone \<Rightarrow> string" where
  "tone_name t = (case t of Casual \<Rightarrow> ''casual'' | ProfessionalTone \<Rightarrow> ''professional''
                  | Formal \<Rightarrow> ''formal'' | Friendly \<Rightarrow> ''friendly'')"

definition complexity_name :: "complexity \<Rightarrow> string" where
  "complexity_name c = (case c of Simple \<Rightarrow> ''simple'' | Moderate \<Rightarrow> ''moderate''
                        | Detailed \<Rightarrow> ''detailed'')"

definition demographic_name :: "demographic_type \<Rightarrow> string" where
  "demographic_name ty = (case ty of Student \<Rightarrow> ''student'' | Professional \<Rightarrow> ''professional''
                          | Retiree \<Rightarrow> ''retiree'' | Entrepreneur \<Rightarrow> ''entrepreneur'')"

text \<open>
  The prompt shows the income, the expenses and the balance through \<open>toLocaleString\<close>,
  called on the fields of the stored data: a field that is \<open>null\<close> raises a type error.
\<close>

definition buildPrompt ::
  "env \<Rightarrow> string \<Rightarrow> ChatMessage list \<Rightarrow> User option \<Rightarrow> FinancialData \<Rightarrow> tone \<Rightarrow>
   complexity \<Rightarrow> exn + string" where
  \<open>buildPrompt E userMessage conversationHistory user d t c =
     (if monthlyIncome d = Null \<or> monthlyExpenses d = Null \<or> totalBalance d = Null
      then Inl TypeError
      else Inr (
     (''<|system|>'' @ nl) @
     (''You are FINOVA, an expert personal finance assistant. Provide personalized, accurate financial advice.'' @ nl @ nl) @
     (case user of
        None \<Rightarrow> []
      | Some u \<Rightarrow>
          (''User Profile:'' @ nl) @
          ''- Name: '' @ fullName u @ nl @
          (case demographic u of
             None \<Rightarrow> []
           | Some dm \<Rightarrow>
               ''- Demographic: '' @ demographic_name (type_d dm) @
               (case age dm of
                  None \<Rightarrow> []
                | Some a \<Rightarrow> if a = Fin 0 \<or> a = NaN \<or> a = Null then []
                            else '', Age '' @ numberToString E a) @
               (case occupation dm of
                  None \<Rightarrow> []
                | Some oc \<Rightarrow> if oc = [] then [] else '', '' @ oc) @
               nl) @
          (case financialGoals u of
             Some (g # gs) \<Rightarrow> ''- Goals: '' @ join '', '' (g # gs) @ nl
           | _ \<Rightarrow> [])) @
     (nl @ ''Financial Situation:'' @ nl) @
     ''- Monthly Income: $'' @ toLocaleString E (monthlyIncome d) @ nl @
     ''- Monthly Expenses: $'' @ toLocaleString E (monthlyExpenses d) @ nl @
     ''- Total Balance: $'' @ toLocaleString E (totalBalance d) @ nl @
     ''- Savings Rate: '' @ toFixed1 (numberToString E) (savings_rate d) @ (''%'' @ nl) @
     (if length conversationHistory > 0 then
        (nl @ ''Recent Conversation:'' @ nl) @
        concat (map (\<lambda>msg. (if role_m msg = UserRole then ''User'' else ''FINOVA'') @ '': '' @
                            content_m msg @ nl)
                 (slice_last 5 conversationHistory))
      else []) @
     (nl @ ''Communication Style: '') @ tone_name t @ '', '' @ complexity_name c @ ('' level'' @ nl) @
     (''<|user|>'' @ nl) @ userMessage @ (nl @ ''<|assistant|>'' @ nl)))\<close>

subsection \<open>Reading the body\<close>

text \<open>
  The body is probed as the source does. Reading a property of \<open>null\<close> raises a type
  error; a property that is not there is undefined (\<open>None\<close>); \<open>x?.p\<close> is undefined when
  \<open>x\<close> is undefined or \<open>null\<close>; calling \<open>trim\<close> on anything but a string raises a type
  error.
\<close>

definition get_prop :: "jsval \<Rightarrow> string \<Rightarrow> exn + jsval option" where
  "get_prop v k = (case v of JNull \<Rightarrow> Inl TypeError | JObj kvs \<Rightarrow> Inr (map_of kvs k) | _ \<Rightarrow> Inr None)"

text \<open>\<open>data[0]\<close> for an array.\<close>

definition element0 :: "jsval list \<Rightarrow> jsval option" where
  "element0 xs = (case xs of [] \<Rightarrow> None | x # _ \<Rightarrow> Some x)"

definition opt_prop :: "jsval option \<Rightarrow> string \<Rightarrow> jsval option" where
  "opt_prop v k =
     (case v of
        None \<Rightarrow> None
      | Some JNull \<Rightarrow> None
      | Some (JObj kvs) \<Rightarrow> map_of kvs k
      | Some _ \<Rightarrow> None)"

definition truthy_val :: "jsval option \<Rightarrow> bool" where
  "truthy_val v =
     (case v of
        None \<Rightarrow> False
      | Some JNull \<Rightarrow> False
      | Some (JBool b) \<Rightarrow> b
      | Some (JNum n) \<Rightarrow> n \<noteq> Fin 0 \<and> n \<noteq> NaN \<and> n \<noteq> Null
      | Some (JStr s) \<Rightarrow> s \<noteq> []
      | Some _ \<Rightarrow> True)"

definition call_trim :: "jsval option \<Rightarrow> exn + string" where
  "call_trim v = (case v of Some (JStr s) \<Rightarrow> Inr (trim s) | _ \<Rightarrow> Inl TypeError)"

definition extract_text :: "jsval \<Rightarrow> exn + string" where
  "extract_text data =
     (case data of
        JArr xs \<Rightarrow>
          if truthy_val (opt_prop (element0 xs) ''generated_text'')
          then call_trim (opt_prop (element0 xs) ''generated_text'')
          else if truthy_val (opt_prop (element0 xs) ''summary_text'')
          then call_trim (opt_prop (element0 xs) ''summary_text'')
          else (case element0 xs of Some (JStr s) \<Rightarrow> Inr (trim s) | _ \<Rightarrow> Inr [])
      | JObj kvs \<Rightarrow>
          if truthy_val (map_of kvs ''generated_text'')
          then call_trim (map_of kvs ''generated_text'')
          else if truthy_val (map_of kvs ''summary_text'')
          then call_trim (map_of kvs ''summary_text'')
          else if truthy_val (map_of kvs ''text'')
          then call_trim (map_of kvs ''text'')
          else if truthy_val (opt_prop (map_of kvs ''0'') ''generated_text'')
          then call_trim (opt_prop (map_of kvs ''0'') ''generated_text'')
          else Inr []
      | JNull \<Rightarrow> Inl TypeError
      | JStr s \<Rightarrow> Inr (trim s)
      | _ \<Rightarrow> Inr [])"

text \<open>Cleaning the text: control tokens are removed, then the context around the answer.\<close>

definition second_piece_or :: "string \<Rightarrow> string \<Rightarrow> string" where
  "second_piece_or sep s =
     (if includes_str s sep
      then (case split s sep of
              _ # p # _ \<Rightarrow> if trim p \<noteq> [] then trim p else s
            | _ \<Rightarrow> s)
      else s)"

definition first_piece :: "string \<Rightarrow> string \<Rightarrow> string" where
  "first_piece sep s =
     (if includes_str s sep
      then (case split s sep of p # _ \<Rightarrow> trim p | [] \<Rightarrow> s)
      else s)"

definition cleanup :: "string \<Rightarrow> string" where
  \<open>cleanup aiResponse =
     (if aiResponse \<noteq> [] then
        first_piece ''User:''
          (second_piece_or ''FINOVA:''
            (second_piece_or ''Assistant Response:''
              (trim (remove_all ''<|end|>''
                      (remove_all ''<|assistant|>''
                        (remove_all ''<|user|>''
                          (remove_all ''<|system|>'' aiResponse)))))))
      else aiResponse)\<close>

subsection \<open>Attachments\<close>

definition shouldGenerateBudgetSummary :: "env \<Rightarrow> string \<Rightarrow> string \<Rightarrow> bool" where
  "shouldGenerateBudgetSummary E userMessage aiResponse =
     list_ex (\<lambda>keyword. includes_str (toLowerCase E userMessage) keyword \<or>
                         includes_str (toLowerCase E aiResponse) keyword)
       [''budget'', ''summary'', ''income'', ''expense'', ''spending'', ''balance'']"

definition shouldGenerateInsights :: "env \<Rightarrow> string \<Rightarrow> string \<Rightarrow> bool" where
  "shouldGenerateInsights E userMessage aiResponse =
     list_ex (\<lambda>keyword. includes_str (toLowerCase E userMessage) keyword \<or>
                         includes_str (toLowerCase E aiResponse) keyword)
       [''insight'', ''spending'', ''expense'', ''analysis'', ''recommendation'']"

text \<open>The adapter has its own copies of the two aggregator functions.\<close>

definition hf_generateBudgetSummary :: "env \<Rightarrow> FinancialData \<Rightarrow> BudgetSummary" where
  "hf_generateBudgetSummary E d =
     (let savingsRate = savings_rate d;
          monthlySavings = num_sub (monthlyIncome d) (monthlyExpenses d);
          categoryBreakdown = category_breakdown (expenseBreakdown d)
      in \<lparr> monthlyIncome_s = monthlyIncome d,
           monthlyExpenses_s = monthlyExpenses d,
           monthlySavings = monthlySavings,
           savingsRate = toFixed1 (numberToString E) savingsRate,
           categoryBreakdown = categoryBreakdown,
           totalBalance_s = totalBalance d \<rparr>)"

definition hf_generateSpendingInsights :: "FinancialData \<Rightarrow> Insights" where
  \<open>hf_generateSpendingInsights d =
     (let savingsRate = savings_rate d;
          (t1, r1) = trend_part d;
          r2 = (if num_lt savingsRate (Fin 10)
                then [''Consider increasing your savings rate to at least 10% of your income.'']
                else []);
          t2 = (if \<not> num_lt savingsRate (Fin 10) \<and> num_ge savingsRate (Fin 20)
                then [''Excellent savings rate! You are saving 20% or more of your income.'']
                else []);
          low = num_lt (totalBalance d) (num_mul (monthlyExpenses d) (Fin 3));
          a4 = (if low
                then [''Your emergency fund is below 3 months of expenses. Consider building it up.'']
                else []);
          r4 = (if low
                then [''Aim to have 3-6 months of expenses saved as an emergency fund.'']
                else [])
      in \<lparr> trends = t1 @ t2, anomalies = a4, recommendations = r1 @ r2 @ r4 \<rparr>)\<close>

subsection \<open>\<open>AIServiceHuggingFace.generateResponse\<close>\<close>

text \<open>
  \<open>fallbackResponse\<close> hands the message and the history to the rule-based service
  (loading the module of that service is taken to succeed).
\<close>

definition fallbackResponse ::
  "env \<Rightarrow> localStorage \<Rightarrow> string \<Rightarrow> ChatMessage list \<Rightarrow> User option \<Rightarrow> FinancialData \<Rightarrow>
   tone \<Rightarrow> complexity \<Rightarrow> exn + AIResponse" where
  "fallbackResponse E ls userMessage conversationHistory user d t c =
     generateResponse E ls userMessage conversationHistory"

text \<open>
  The two requests: the primary model first and, when its response is not ok with status
  503, the alternate model once.
\<close>

definition send_request :: "remote \<Rightarrow> string \<Rightarrow> exn + response" where
  "send_request W prompt =
     (let auth = (if truthy (HF_TOKEN W) then HF_TOKEN W else None) in
      case fetch W \<lparr> url = HF_API_URL, authorization = auth, inputs = prompt,
                     max_new_tokens = 500 \<rparr> of
        None \<Rightarrow> Inl NetworkError
      | Some r \<Rightarrow>
          if \<not> ok r \<and> status r = 503 then
            (case fetch W \<lparr> url = HF_FALLBACK_URL, authorization = auth, inputs = prompt,
                            max_new_tokens = 400 \<rparr> of
               None \<Rightarrow> Inl NetworkError
             | Some r2 \<Rightarrow> Inr r2)
          else Inr r)"

text \<open>
  The body of the \<open>try\<close> block: \<open>Inl\<close> is an exception raised inside it, \<open>Inr None\<close> one
  of its returns through \<open>fallbackResponse\<close>, \<open>Inr (Some text)\<close> the cleaned text of the
  remote model.
\<close>

definition remote_text :: "remote \<Rightarrow> string \<Rightarrow> exn + string option" where
  "remote_text W prompt =
     (case send_request W prompt of
        Inl e \<Rightarrow> Inl e
      | Inr r \<Rightarrow>
          if \<not> ok r then Inr None
          else
            (case json r of
               None \<Rightarrow> Inl SyntaxError
             | Some data \<Rightarrow>
                 (case get_prop data ''error'' of
                    Inl e \<Rightarrow> Inl e
                  | Inr err \<Rightarrow>
                      if truthy_val err then Inr None
                      else
                        (case extract_text data of
                           Inl e \<Rightarrow> Inl e
                         | Inr aiResponse \<Rightarrow>
                             if cleanup aiResponse = [] \<or> js_length (cleanup aiResponse) < 10
                             then Inr None
                             else Inr (Some (cleanup aiResponse))))))"

text \<open>
  The context is read and the prompt is built before the \<open>try\<close> block, so what
  \<open>buildPrompt\<close> raises is raised by the adapter. An exception of the \<open>try\<close> block is
  caught and answered through \<open>fallbackResponse\<close>; what \<open>fallbackResponse\<close> raises is
  not caught, neither in the handler nor where the block returns its promise.
\<close>

definition hf_generateResponse ::
  "env \<Rightarrow> remote \<Rightarrow> localStorage \<Rightarrow> string \<Rightarrow> ChatMessage list \<Rightarrow> exn + AIResponse" where
  "hf_generateResponse E W ls userMessage conversationHistory =
     (let (user, financialData) = getUserContext ls;
          (t, c) = getDemographicTone user
      in case buildPrompt E userMessage conversationHistory user financialData t c of
           Inl e \<Rightarrow> Inl e
         | Inr prompt \<Rightarrow>
             (case remote_text W prompt of
                Inr (Some aiResponse) \<Rightarrow>
                  Inr \<lparr> content = aiResponse,
                        suggestions = None,
                        budgetSummary =
                          (if shouldGenerateBudgetSummary E userMessage aiResponse
                           then Some (hf_generateBudgetSummary E financialData) else None),
                        insights =
                          (if shouldGenerateInsights E userMessage aiResponse
                           then Some (hf_generateSpendingInsights financialData) else None) \<rparr>
              | Inr None \<Rightarrow>
                  fallbackResponse E ls userMessage conversationHistory user financialData t c
              | Inl e \<Rightarrow>
                  fallbackResponse E ls userMessage conversationHistory user financialData t c))"

section \<open>Well-formed data and sample states\<close>

text \<open>
  A \<open>FinancialData\<close> value is well-formed when all its numbers are finite: these are the
  values that \<open>JSON.stringify\<close> writes without loss.
\<close>

definition wellformed_fd :: "FinancialData \<Rightarrow> bool" where
  "wellformed_fd d \<longleftrightarrow>
     is_finite (totalBalance d) \<and> is_finite (monthlyIncome d) \<and> is_finite (monthlyExpenses d) \<and>
     list_all (\<lambda>e. is_finite (amount e)) (expenseBreakdown d) \<and>
     list_all (\<lambda>e. is_finite (amount_i e)) (incomeHistory d) \<and>
     list_all (\<lambda>e. is_finite (amount e)) (expenseHistory d)"

text \<open>
  A typed store: the session entry is absent or plain text, the users entry is absent or a
  list of users, and the financial entry of the active user is absent or a financial
  document. The totals of a financial document are present when none of them is \<open>null\<close>.
\<close>

definition typed_store :: "localStorage \<Rightarrow> bool" where
  "typed_store ls \<longleftrightarrow>
     (case ls SESSION_KEY of None \<Rightarrow> True | Some (Text s) \<Rightarrow> True | Some _ \<Rightarrow> False) \<and>
     (case ls USERS_KEY of None \<Rightarrow> True | Some (UsersDoc us) \<Rightarrow> True | Some _ \<Rightarrow> False) \<and>
     (case ls (getUserScopedKey FINANCIAL_DATA_KEY ls) of
        None \<Rightarrow> True | Some (FinancialDoc d) \<Rightarrow> True | Some _ \<Rightarrow> False)"

definition totals_present :: "FinancialData \<Rightarrow> bool" where
  "totals_present d \<longleftrightarrow>
     monthlyIncome d \<noteq> Null \<and> monthlyExpenses d \<noteq> Null \<and> totalBalance d \<noteq> Null"

definition alice :: User where
  "alice = \<lparr> id_u = ''u1'', email = ''a@x.org'', fullName = ''Alice A'',
             password = Some ''secret1'', demographic = None, financialGoals = None,
             createdAt = ''2024-01-01'' \<rparr>"

definition shadowed :: User where
  "shadowed = \<lparr> id_u = ''u2'', email = ''a@x.org'', fullName = ''Alice B'',
                password = None, demographic = None, financialGoals = None,
                createdAt = ''2024-01-02'' \<rparr>"

definition session_of :: "string \<Rightarrow> localStorage" where
  "session_of u = Map.empty(SESSION_KEY \<mapsto> Text u)"


text \<open>
  A sample platform (numbers are shown with one decimal, the random generator returns 0,
  a character outside ASCII is its own lower case) and sample remote endpoints: one whose
  primary model answers 503 while the alternate model answers with a text, and one that
  answers 500.
\<close>

definition sample_env :: env where
  "sample_env = \<lparr> toLocaleString = toFixed1 (\<lambda>_. ''1e+21''),
                   numberToString = (\<lambda>_. ''1e+21''), random = 0,
                   lowerNonASCII =
                     (\<lambda>before rest.
                        case rest of
                          [] \<Rightarrow> []
                        | c # r \<Rightarrow> c # takeWhile (\<lambda>b. digit7 b \<and> \<not> digit6 b) r) \<rparr>"

definition remote_503 :: remote where
  "remote_503 =
     \<lparr> HF_TOKEN = None,
       fetch = (\<lambda>req. if url req = HF_API_URL
                       then Some \<lparr> ok = False, status = 503, json = None \<rparr>
                       else Some \<lparr> ok = True, status = 200,
                                   json = Some (JArr [JObj [(''generated_text'',
                                            JStr ''Save ten percent of income.'')]]) \<rparr>) \<rparr>"

definition remote_500 :: remote where
  "remote_500 =
     \<lparr> HF_TOKEN = None,
       fetch = (\<lambda>req. Some \<lparr> ok = False, status = 500, json = None \<rparr>) \<rparr>"

definition new_account :: localStorage where
  "new_account =
     fst (handleSignUp ''user_1'' ''b@x.org'' ''Bob B'' ''secret2'' Professional ''2024-01-03''
            Map.empty)"

definition sample_prompt :: string where
  "sample_prompt =
     projr (buildPrompt sample_env ''thanks'' [] None defaultFinancialData Friendly Moderate)"



section \<open>Properties of the persistent store\<close>

lemma scoped_key_not_session:
  "getUserScopedKey FINANCIAL_DATA_KEY ls \<noteq> SESSION_KEY"
  "getUserScopedKey SAVINGS_GOALS_KEY ls \<noteq> SESSION_KEY"
  "getUserScopedKey CHAT_MESSAGES_KEY ls \<noteq> SESSION_KEY"
  by (simp_all add: getUserScopedKey_def FINANCIAL_DATA_KEY_def SAVINGS_GOALS_KEY_def
        CHAT_MESSAGES_KEY_def SESSION_KEY_def split: option.splits)

lemma active_after_write:
  "k \<noteq> SESSION_KEY \<Longrightarrow> getActiveUserId (ls(k \<mapsto> v)) = getActiveUserId ls"
  by (simp add: getActiveUserId_def)

lemma scoped_key_after_write:
  "k \<noteq> SESSION_KEY \<Longrightarrow> getUserScopedKey b (ls(k \<mapsto> v)) = getUserScopedKey b ls"
  by (simp add: getUserScopedKey_def active_after_write)

lemma scoped_key_active:
  "getActiveUserId ls = Some A \<Longrightarrow> A \<noteq> [] \<Longrightarrow> getUserScopedKey b ls = b @ ''_'' @ A"
  by (simp add: getUserScopedKey_def)

lemma active_setActiveUser:
  "B \<noteq> [] \<Longrightarrow> getActiveUserId (setActiveUser (Some B) ls) = Some B"
  by (simp add: getActiveUserId_def setActiveUser_def)

lemma base_keys_distinct:
  "FINANCIAL_DATA_KEY @ ''_'' @ A \<noteq> SAVINGS_GOALS_KEY @ ''_'' @ B"
  "FINANCIAL_DATA_KEY @ ''_'' @ A \<noteq> CHAT_MESSAGES_KEY @ ''_'' @ B"
  "SAVINGS_GOALS_KEY @ ''_'' @ A \<noteq> CHAT_MESSAGES_KEY @ ''_'' @ B"
  "SAVINGS_GOALS_KEY @ ''_'' @ A \<noteq> FINANCIAL_DATA_KEY @ ''_'' @ B"
  "CHAT_MESSAGES_KEY @ ''_'' @ A \<noteq> FINANCIAL_DATA_KEY @ ''_'' @ B"
  "CHAT_MESSAGES_KEY @ ''_'' @ A \<noteq> SAVINGS_GOALS_KEY @ ''_'' @ B"
  by (simp_all add: FINANCIAL_DATA_KEY_def SAVINGS_GOALS_KEY_def CHAT_MESSAGES_KEY_def)

lemma scoped_keys_not_session:
  "FINANCIAL_DATA_KEY @ ''_'' @ A \<noteq> SESSION_KEY"
  "SAVINGS_GOALS_KEY @ ''_'' @ A \<noteq> SESSION_KEY"
  "CHAT_MESSAGES_KEY @ ''_'' @ A \<noteq> SESSION_KEY"
  by (simp_all add: FINANCIAL_DATA_KEY_def SAVINGS_GOALS_KEY_def CHAT_MESSAGES_KEY_def
        SESSION_KEY_def)

lemma read_back_parsed: "getFinancialData (saveFinancialData d ls) = json_financial d"
  by (simp add: getFinancialData_def saveFinancialData_def scoped_key_after_write
        scoped_key_not_session)

lemma json_number_finite: "is_finite x \<Longrightarrow> json_number x = x"
  by (simp add: json_number_def)

lemma json_financial_wellformed:
  assumes "wellformed_fd d"
  shows "json_financial d = d"
proof -
  have 1: "map (\<lambda>e. e\<lparr>amount := json_number (amount e)\<rparr>) (expenseBreakdown d) = expenseBreakdown d"
    using assms by (intro map_idI) (simp add: wellformed_fd_def list_all_iff json_number_finite)
  have 2: "map (\<lambda>e. e\<lparr>amount_i := json_number (amount_i e)\<rparr>) (incomeHistory d) = incomeHistory d"
    using assms by (intro map_idI) (simp add: wellformed_fd_def list_all_iff json_number_finite)
  have 3: "map (\<lambda>e. e\<lparr>amount := json_number (amount e)\<rparr>) (expenseHistory d) = expenseHistory d"
    using assms by (intro map_idI) (simp add: wellformed_fd_def list_all_iff json_number_finite)
  show ?thesis
    unfolding json_financial_def 1 2 3
    using assms by (simp add: wellformed_fd_def json_number_finite)
qed

lemma read_back_saved: "wellformed_fd d \<Longrightarrow> getFinancialData (saveFinancialData d ls) = d"
  by (simp add: read_back_parsed json_financial_wellformed)

text \<open>
  Claim C6 (store round trip). For every well-formed \<open>FinancialData\<close> value and whatever
  the active user is, \<open>saveFinancialData\<close> followed by \<open>getFinancialData\<close> under the same
  active user returns the value that was saved, field by field. (A number that is not
  finite is read back as \<open>null\<close>, see \<open>read_back_parsed\<close>.)
\<close>

theorem store_round_trip:
  "wellformed_fd d \<Longrightarrow> getFinancialData (saveFinancialData d ls) = d"
  by (rule read_back_saved)

theorem store_round_trip_witness:
  "wellformed_fd defaultFinancialData \<and>
   getFinancialData (saveFinancialData defaultFinancialData (session_of ''u1''))
     = defaultFinancialData"
proof -
  have wf: "wellformed_fd defaultFinancialData"
    by (simp add: wellformed_fd_def defaultFinancialData_def)
  from store_round_trip [OF wf] wf show ?thesis by simp
qed

subsection \<open>User scoping\<close>

lemma write_under_active:
  assumes "getActiveUserId ls = Some A" and "A \<noteq> []"
  shows "saveFinancialData d ls = ls(FINANCIAL_DATA_KEY @ ''_'' @ A \<mapsto> FinancialDoc d)"
    and "saveSavingsGoals gs ls = ls(SAVINGS_GOALS_KEY @ ''_'' @ A \<mapsto> GoalsDoc gs)"
    and "saveChatMessage m ls =
           ls(CHAT_MESSAGES_KEY @ ''_'' @ A \<mapsto> MessagesDoc (getChatMessages None ls @ [m]))"
  by (simp_all add: saveFinancialData_def saveSavingsGoals_def saveChatMessage_def
        scoped_key_active [OF assms])

lemma other_entries_kept:
  assumes "A \<noteq> B"
  shows "(ls(FINANCIAL_DATA_KEY @ ''_'' @ A \<mapsto> v)) (FINANCIAL_DATA_KEY @ ''_'' @ B)
           = ls (FINANCIAL_DATA_KEY @ ''_'' @ B)"
    and "(ls(FINANCIAL_DATA_KEY @ ''_'' @ A \<mapsto> v)) (SAVINGS_GOALS_KEY @ ''_'' @ B)
           = ls (SAVINGS_GOALS_KEY @ ''_'' @ B)"
    and "(ls(FINANCIAL_DATA_KEY @ ''_'' @ A \<mapsto> v)) (CHAT_MESSAGES_KEY @ ''_'' @ B)
           = ls (CHAT_MESSAGES_KEY @ ''_'' @ B)"
    and "(ls(SAVINGS_GOALS_KEY @ ''_'' @ A \<mapsto> v)) (FINANCIAL_DATA_KEY @ ''_'' @ B)
           = ls (FINANCIAL_DATA_KEY @ ''_'' @ B)"
    and "(ls(SAVINGS_GOALS_KEY @ ''_'' @ A \<mapsto> v)) (SAVINGS_GOALS_KEY @ ''_'' @ B)
           = ls (SAVINGS_GOALS_KEY @ ''_'' @ B)"
    and "(ls(SAVINGS_GOALS_KEY @ ''_'' @ A \<mapsto> v)) (CHAT_MESSAGES_KEY @ ''_'' @ B)
           = ls (CHAT_MESSAGES_KEY @ ''_'' @ B)"
    and "(ls(CHAT_MESSAGES_KEY @ ''_'' @ A \<mapsto> v)) (FINANCIAL_DATA_KEY @ ''_'' @ B)
           = ls (FINANCIAL_DATA_KEY @ ''_'' @ B)"
    and "(ls(CHAT_MESSAGES_KEY @ ''_'' @ A \<mapsto> v)) (SAVINGS_GOALS_KEY @ ''_'' @ B)
           = ls (SAVINGS_GOALS_KEY @ ''_'' @ B)"
    and "(ls(CHAT_MESSAGES_KEY @ ''_'' @ A \<mapsto> v)) (CHAT_MESSAGES_KEY @ ''_'' @ B)
           = ls (CHAT_MESSAGES_KEY @ ''_'' @ B)"
  using assms by (simp_all add: base_keys_distinct [simplified])

lemma read_under_other:
  assumes "B \<noteq> []" "k \<noteq> SESSION_KEY" "k \<noteq> b @ ''_'' @ B"
  shows "(setActiveUser (Some B) (ls(k \<mapsto> v)))
           (getUserScopedKey b (setActiveUser (Some B) (ls(k \<mapsto> v))))
         = (setActiveUser (Some B) ls) (getUserScopedKey b (setActiveUser (Some B) ls))"
  using assms
  by (simp add: scoped_key_active active_setActiveUser) (simp add: setActiveUser_def)

lemma reads_under_other_user:
  assumes act: "getActiveUserId ls = Some A" and A: "A \<noteq> []" and B: "B \<noteq> []"
    and AB: "A \<noteq> B"
  shows "getFinancialData (setActiveUser (Some B) (saveFinancialData d ls))
           = getFinancialData (setActiveUser (Some B) ls)"
    and "getSavingsGoals (setActiveUser (Some B) (saveSavingsGoals gs ls))
           = getSavingsGoals (setActiveUser (Some B) ls)"
    and "getChatMessages u (setActiveUser (Some B) (saveChatMessage m ls))
           = getChatMessages u (setActiveUser (Some B) ls)"
proof -
  show "getFinancialData (setActiveUser (Some B) (saveFinancialData d ls))
           = getFinancialData (setActiveUser (Some B) ls)"
    unfolding getFinancialData_def write_under_active(1) [OF act A]
    using read_under_other [OF B scoped_keys_not_session(1), of A FINANCIAL_DATA_KEY] AB
    by simp
  show "getSavingsGoals (setActiveUser (Some B) (saveSavingsGoals gs ls))
           = getSavingsGoals (setActiveUser (Some B) ls)"
    unfolding getSavingsGoals_def write_under_active(2) [OF act A]
    using read_under_other [OF B scoped_keys_not_session(2), of A SAVINGS_GOALS_KEY] AB
    by simp
  show "getChatMessages u (setActiveUser (Some B) (saveChatMessage m ls))
           = getChatMessages u (setActiveUser (Some B) ls)"
    unfolding getChatMessages_def write_under_active(3) [OF act A]
    using read_under_other [OF B scoped_keys_not_session(3), of A CHAT_MESSAGES_KEY] AB
    by simp
qed

text \<open>
  Claim C7 (user scoping). Let \<open>A\<close> and \<open>B\<close> be distinct user ids and \<open>A\<close> the active
  user. Each of the three writes changes exactly the entry under the key suffixed with
  \<open>A\<close>; every entry under a key suffixed with \<open>B\<close> keeps its content; and what is read
  once \<open>B\<close> is active is what would have been read without the write. The statement is
  symmetric in \<open>A\<close> and \<open>B\<close>.
\<close>

theorem user_scoping:
  assumes act: "getActiveUserId ls = Some A" and A: "A \<noteq> []" and B: "B \<noteq> []"
    and AB: "A \<noteq> B"
  shows "saveFinancialData d ls = ls(FINANCIAL_DATA_KEY @ ''_'' @ A \<mapsto> FinancialDoc d)
    \<and> saveSavingsGoals gs ls = ls(SAVINGS_GOALS_KEY @ ''_'' @ A \<mapsto> GoalsDoc gs)
    \<and> saveChatMessage m ls =
        ls(CHAT_MESSAGES_KEY @ ''_'' @ A \<mapsto> MessagesDoc (getChatMessages None ls @ [m]))
    \<and> saveFinancialData d ls (FINANCIAL_DATA_KEY @ ''_'' @ B) = ls (FINANCIAL_DATA_KEY @ ''_'' @ B)
    \<and> saveFinancialData d ls (SAVINGS_GOALS_KEY @ ''_'' @ B) = ls (SAVINGS_GOALS_KEY @ ''_'' @ B)
    \<and> saveFinancialData d ls (CHAT_MESSAGES_KEY @ ''_'' @ B) = ls (CHAT_MESSAGES_KEY @ ''_'' @ B)
    \<and> saveSavingsGoals gs ls (FINANCIAL_DATA_KEY @ ''_'' @ B) = ls (FINANCIAL_DATA_KEY @ ''_'' @ B)
    \<and> saveSavingsGoals gs ls (SAVINGS_GOALS_KEY @ ''_'' @ B) = ls (SAVINGS_GOALS_KEY @ ''_'' @ B)
    \<and> saveSavingsGoals gs ls (CHAT_MESSAGES_KEY @ ''_'' @ B) = ls (CHAT_MESSAGES_KEY @ ''_'' @ B)
    \<and> saveChatMessage m ls (FINANCIAL_DATA_KEY @ ''_'' @ B) = ls (FINANCIAL_DATA_KEY @ ''_'' @ B)
    \<and> saveChatMessage m ls (SAVINGS_GOALS_KEY @ ''_'' @ B) = ls (SAVINGS_GOALS_KEY @ ''_'' @ B)
    \<and> saveChatMessage m ls (CHAT_MESSAGES_KEY @ ''_'' @ B) = ls (CHAT_MESSAGES_KEY @ ''_'' @ B)
    \<and> getFinancialData (setActiveUser (Some B) (saveFinancialData d ls))
        = getFinancialData (setActiveUser (Some B) ls)
    \<and> getSavingsGoals (setActiveUser (Some B) (saveSavingsGoals gs ls))
        = getSavingsGoals (setActiveUser (Some B) ls)
    \<and> getChatMessages u (setActiveUser (Some B) (saveChatMessage m ls))
        = getChatMessages u (setActiveUser (Some B) ls)"
  unfolding write_under_active [OF act A] other_entries_kept [OF AB]
  using reads_under_other_user [OF act A B AB, unfolded write_under_active [OF act A]]
  by simp

theorem user_scoping_witness:
  "getActiveUserId (session_of ''u1'') = Some ''u1'' \<and> ''u1'' \<noteq> ''u2'' \<and>
   saveFinancialData defaultFinancialData (session_of ''u1'')
     = (session_of ''u1'')(FINANCIAL_DATA_KEY @ ''_'' @ ''u1'' \<mapsto> FinancialDoc defaultFinancialData) \<and>
   saveFinancialData defaultFinancialData (session_of ''u1'') (FINANCIAL_DATA_KEY @ ''_'' @ ''u2'')
     = session_of ''u1'' (FINANCIAL_DATA_KEY @ ''_'' @ ''u2'') \<and>
   getFinancialData (setActiveUser (Some ''u2'')
       (saveFinancialData defaultFinancialData (session_of ''u1'')))
     = getFinancialData (setActiveUser (Some ''u2'') (session_of ''u1''))"
proof -
  have act: "getActiveUserId (session_of ''u1'') = Some ''u1''"
    by (simp add: getActiveUserId_def session_of_def)
  have A: "''u1'' \<noteq> []" and B: "''u2'' \<noteq> []" and AB: "''u1'' \<noteq> ''u2''" by simp_all
  note inst = user_scoping [OF act A B AB, where d = defaultFinancialData and gs = "[]"
      and m = "\<lparr> id_m = ''m1'', role_m = UserRole, content_m = ''hi'', created_at = ''t'',
                  userId = None \<rparr>" and u = None]
  from inst have 1: "saveFinancialData defaultFinancialData (session_of ''u1'')
     = (session_of ''u1'')(FINANCIAL_DATA_KEY @ ''_'' @ ''u1'' \<mapsto> FinancialDoc defaultFinancialData)"
    by (rule conjunct1)
  from inst have 2: "saveFinancialData defaultFinancialData (session_of ''u1'')
       (FINANCIAL_DATA_KEY @ ''_'' @ ''u2'')
     = session_of ''u1'' (FINANCIAL_DATA_KEY @ ''_'' @ ''u2'')"
    by blast
  from inst have 3: "getFinancialData (setActiveUser (Some ''u2'')
       (saveFinancialData defaultFinancialData (session_of ''u1'')))
     = getFinancialData (setActiveUser (Some ''u2'') (session_of ''u1''))"
    by blast
  from act AB 1 2 3 show ?thesis by blast
qed

subsection \<open>Clearing the store\<close>

lemma clearAll_eq: "clearAll ls = ls(USERS_KEY := None, SESSION_KEY := None)"
  by (simp add: clearAll_def getActiveUserId_def Let_def)

text \<open>
  Claim C8 (\<open>clearAll\<close>). The claim is that the entries of the user who is active when
  \<open>clearAll\<close> is called are removed. The function removes the session entry before it
  asks for the active user, so it finds none: in a store where user \<open>u1\<close> is active and
  has saved financial data, that data is still there after \<open>clearAll\<close>.
\<close>

theorem clearAll_keeps_active_users_data:
  "getActiveUserId (saveFinancialData defaultFinancialData (session_of ''u1'')) = Some ''u1'' \<and>
   clearAll (saveFinancialData defaultFinancialData (session_of ''u1''))
       ''finova_financial_data_u1''
     = Some (FinancialDoc defaultFinancialData)"
  by (simp add: clearAll_eq saveFinancialData_def session_of_def getUserScopedKey_def
        getActiveUserId_def SESSION_KEY_def USERS_KEY_def FINANCIAL_DATA_KEY_def)

subsection \<open>The users list\<close>

lemma getAllUsers_addUser: "getAllUsers (addUser u ls) = getAllUsers ls @ [u]"
  by (simp add: addUser_def saveAllUsers_def getAllUsers_def)

text \<open>
  Claim C9 (ids in the users list are pairwise distinct in every reachable state) fails:
  adding the same record twice to the empty store gives a list with a repeated id.
\<close>

theorem addUser_duplicate_id:
  "\<not> distinct (map id_u (getAllUsers (addUser alice (addUser alice Map.empty))))"
  by (simp add: getAllUsers_addUser)

text \<open>
  Claim C9 as amended. \<open>addUser\<close> appends the record without any check, so the ids after
  the call are pairwise distinct exactly when they were so before and the new id is not
  among them.
\<close>

theorem addUser_ids_distinct_iff:
  "getAllUsers (addUser u ls) = getAllUsers ls @ [u] \<and>
   (distinct (map id_u (getAllUsers (addUser u ls))) \<longleftrightarrow>
      distinct (map id_u (getAllUsers ls)) \<and> id_u u \<notin> id_u ` set (getAllUsers ls))"
  by (auto simp add: getAllUsers_addUser)

subsection \<open>Sign-in\<close>

text \<open>
  Claim C10 (every stored record without a password can be signed in to with any
  password) fails for a record that comes after another record with the same email:
  the lookup returns the earlier record, and its password decides.
\<close>

theorem sign_in_shadowed_record_fails:
  "getAllUsers (addUser shadowed (addUser alice Map.empty)) = [alice, shadowed] \<and>
   password shadowed = None \<and>
   handleSignIn (email shadowed) ''guess'' (addUser shadowed (addUser alice Map.empty))
     = (addUser shadowed (addUser alice Map.empty), Sign_in_failed)"
proof -
  have users: "getAllUsers (addUser shadowed (addUser alice Map.empty)) = [alice, shadowed]"
    by (simp add: getAllUsers_addUser) (simp add: getAllUsers_def)
  show ?thesis
    by (simp add: users handleSignIn_def getUserByEmail_def) (simp add: alice_def shadowed_def)
qed

text \<open>
  Claim C10 as amended. When the first record with the entered email has no password or
  an empty one, sign-in succeeds whatever password is entered, and the id of that record
  (not empty) becomes the active user id.
\<close>

theorem sign_in_without_password:
  assumes "getUserByEmail em ls = Some u" and "password u = None \<or> password u = Some []"
    and "id_u u \<noteq> []"
  shows "handleSignIn em pw ls = (ls(SESSION_KEY \<mapsto> Text (id_u u)), Welcome_back)
       \<and> getActiveUserId (fst (handleSignIn em pw ls)) = Some (id_u u)"
  using assms by (auto simp add: handleSignIn_def setActiveUser_def getActiveUserId_def)

theorem sign_in_without_password_witness:
  "getUserByEmail ''a@x.org'' (addUser shadowed Map.empty) = Some shadowed \<and>
   password shadowed = None \<and> id_u shadowed \<noteq> [] \<and>
   handleSignIn ''a@x.org'' ''anything'' (addUser shadowed Map.empty)
     = ((addUser shadowed Map.empty)(SESSION_KEY \<mapsto> Text ''u2''), Welcome_back)"
proof -
  have 1: "getUserByEmail ''a@x.org'' (addUser shadowed Map.empty) = Some shadowed"
    by (simp add: getUserByEmail_def getAllUsers_addUser) (simp add: getAllUsers_def shadowed_def)
  have 2: "password shadowed = None \<or> password shadowed = Some []" by (simp add: shadowed_def)
  have 3: "id_u shadowed \<noteq> []" by (simp add: shadowed_def)
  from sign_in_without_password [OF 1 2 3, of "''anything''"] 1 2 3
  show ?thesis by (simp add: shadowed_def)
qed

section \<open>Properties of the Financial Aggregator\<close>

lemma budget_summary_fields:
  "savingsRate (generateBudgetSummary E d) = toFixed1 (numberToString E) (savings_rate d)"
  "monthlySavings (generateBudgetSummary E d) = num_sub (monthlyIncome d) (monthlyExpenses d)"
  by (simp_all add: generateBudgetSummary_def Let_def)

lemma savings_rate_zero_income:
  "monthlyIncome d = Fin 0 \<Longrightarrow> monthlyExpenses d = Fin e \<Longrightarrow>
   savings_rate d = (if e = 0 then NaN else if 0 < e then NegInf else PosInf)"
  by (simp add: savings_rate_def num_sub_def)

subsection \<open>Enumeration order of the categories\<close>

lemma array_index_samples:
  "is_array_index ''2024''" "is_array_index ''7''" "\<not> is_array_index ''007''"
  "\<not> is_array_index ''rent''"
  by (simp_all add: is_array_index_def is_digit_def digits_val_def digit_val_def)

lemma entries_sample:
  "entries [(''rent'', Fin 1), (''2024'', Fin 1), (''7'', Fin 1), (''007'', Fin 1)]
     = [(''7'', Fin 1), (''2024'', Fin 1), (''rent'', Fin 1), (''007'', Fin 1)]"
  by (simp add: entries_def array_index_samples digits_val_def digit_val_def)

text \<open>On a tie the category that is enumerated first is the largest one.\<close>

lemma largest_category_sample:
  "sort_desc (entries (category_breakdown
      [\<lparr> category = ''rent'', amount = Fin 10, date = ''d'' \<rparr>,
       \<lparr> category = ''2024'', amount = Fin 10, date = ''d'' \<rparr>]))
   = [(''2024'', Fin 10), (''rent'', Fin 10)]"
  by (simp add: category_breakdown_def breakdown_step_def falsy_num_def entries_def
        array_index_samples digits_val_def digit_val_def sort_desc_def num_gt_def num_sub_def)

subsection \<open>The budget summary\<close>

text \<open>
  The summary of the default data (income 2000, expenses 500), where every intermediate
  result is a number that binary floating point represents exactly.
\<close>

lemma default_budget_summary:
  "savingsRate (generateBudgetSummary E defaultFinancialData) = ''75.0''"
  "monthlySavings (generateBudgetSummary E defaultFinancialData) = Fin 1500"
proof -
  have f: "fixed1 75 = ''75.0''"
    unfolding fixed1_def Let_def by code_simp
  show "savingsRate (generateBudgetSummary E defaultFinancialData) = ''75.0''"
    by (simp add: budget_summary_fields savings_rate_def num_sub_def defaultFinancialData_def f)
  show "monthlySavings (generateBudgetSummary E defaultFinancialData) = Fin 1500"
    by (simp add: budget_summary_fields num_sub_def defaultFinancialData_def)
qed

text \<open>
  Claim C4 (a sentinel for income 0) fails: for the data of a newly created account
  (income 0, expenses 0) the savings rate of the summary is the text \<open>NaN\<close>, which does
  not read back as a number.
\<close>

theorem zero_income_rate_is_NaN:
  "monthlyIncome (getFinancialData new_account) = Fin 0 \<and>
   savingsRate (generateBudgetSummary sample_env (getFinancialData new_account)) = ''NaN'' \<and>
   parseFloat (savingsRate (generateBudgetSummary sample_env (getFinancialData new_account)))
     = NaN"
proof -
  have d: "getFinancialData new_account =
             \<lparr> totalBalance = Fin 0, monthlyIncome = Fin 0, monthlyExpenses = Fin 0,
               expenseBreakdown = [], incomeHistory = [], expenseHistory = [] \<rparr>"
    unfolding new_account_def handleSignUp_def Let_def fst_conv
    by (rule read_back_saved) (simp add: wellformed_fd_def)
  have n: "parseFloat ''NaN'' = NaN" by code_simp
  show ?thesis
    unfolding d budget_summary_fields by (simp add: savings_rate_def num_sub_def n)
qed

text \<open>
  Claim C4 as amended. With income 0 the aggregator applies no guard: the savings rate
  is the result of the division by zero, written out by name (\<open>NaN\<close> when the
  expenses are 0 as well, \<open>-Infinity\<close> when they are positive, \<open>Infinity\<close> when they are
  negative), and the monthly savings are the negated expenses.
\<close>

theorem zero_income_savings_rate:
  assumes "monthlyIncome d = Fin 0" and "monthlyExpenses d = Fin e"
  shows "savingsRate (generateBudgetSummary E d) =
           (if e = 0 then ''NaN'' else if 0 < e then ''-Infinity'' else ''Infinity'')
    \<and> monthlySavings (generateBudgetSummary E d) = Fin (- e)"
  using assms by (simp add: budget_summary_fields savings_rate_zero_income num_sub_def)

theorem zero_income_savings_rate_witness:
  "monthlyIncome (defaultFinancialData\<lparr>monthlyIncome := Fin 0\<rparr>) = Fin 0 \<and>
   monthlyExpenses (defaultFinancialData\<lparr>monthlyIncome := Fin 0\<rparr>) = Fin 500 \<and>
   savingsRate (generateBudgetSummary sample_env (defaultFinancialData\<lparr>monthlyIncome := Fin 0\<rparr>))
     = ''-Infinity''"
proof -
  have i: "monthlyIncome (defaultFinancialData\<lparr>monthlyIncome := Fin 0\<rparr>) = Fin 0"
    and e: "monthlyExpenses (defaultFinancialData\<lparr>monthlyIncome := Fin 0\<rparr>) = Fin 500"
    by (simp_all add: defaultFinancialData_def)
  from zero_income_savings_rate [OF i e, of sample_env] i e show ?thesis by simp
qed

section \<open>Properties of the Advice Dispatcher\<close>





subsection \<open>Lower case of ASCII text\<close>

lemma lower_from_ascii:
  "list_all (\<lambda>c. \<not> digit7 c) s \<Longrightarrow> lower_from E before s = map lower_char s"
  by (induction s arbitrary: before) simp_all

lemma toLowerCase_ascii:
  "list_all (\<lambda>c. \<not> digit7 c) s \<Longrightarrow> toLowerCase E s = map lower_char s"
  by (simp add: toLowerCase_def lower_from_ascii)

subsection \<open>No method is called on null\<close>

lemma num_add_number: "num_add x y \<noteq> Null"
  by (cases x; cases y) simp_all

lemma num_neg_number: "num_neg x \<noteq> Null"
  by (cases x) simp_all

lemma num_sub_number: "num_sub x y \<noteq> Null"
  by (simp add: num_sub_def num_add_number)

lemma num_mul_number: "num_mul x y \<noteq> Null"
  by (cases x; cases y) simp_all

lemma num_div_number: "num_div x y \<noteq> Null"
  by (cases x; cases y) simp_all

lemma obj_set_values:
  "v \<noteq> Null \<Longrightarrow> \<forall>kv\<in>set acc. snd kv \<noteq> Null \<Longrightarrow> \<forall>kv\<in>set (obj_set acc k v). snd kv \<noteq> Null"
  by (induction acc k v rule: obj_set.induct) auto

lemma breakdown_step_values:
  assumes "\<forall>kv\<in>set acc. snd kv \<noteq> Null"
  shows "\<forall>kv\<in>set (breakdown_step acc e). snd kv \<noteq> Null"
proof -
  have "\<forall>kv\<in>set (if falsy_num (map_of acc (category e)) then obj_set acc (category e) (Fin 0)
                     else acc). snd kv \<noteq> Null"
    using assms obj_set_values [of "Fin 0" acc "category e"] by simp
  then show ?thesis
    unfolding breakdown_step_def Let_def by (intro obj_set_values) (simp_all add: num_add_number)
qed

lemma foldl_breakdown_values:
  "\<forall>kv\<in>set acc. snd kv \<noteq> Null \<Longrightarrow> \<forall>kv\<in>set (foldl breakdown_step acc es). snd kv \<noteq> Null"
proof (induction es arbitrary: acc)
  case Nil
  then show ?case by simp
next
  case (Cons e es)
  show ?case using Cons.IH [OF breakdown_step_values [OF Cons.prems]] by simp
qed

lemma category_breakdown_values: "\<forall>kv\<in>set (category_breakdown es). snd kv \<noteq> Null"
  unfolding category_breakdown_def by (rule foldl_breakdown_values) simp

lemma set_entries: "set (entries kvs) = set kvs"
  by (auto simp add: entries_def)

lemma no_null_amount:
  "\<not> list_ex (\<lambda>(cat, amount). amount = Null) (entries (category_breakdown es))"
  using category_breakdown_values [of es]
  by (auto simp add: list_ex_iff set_entries)

lemma budget_response_returns:
  assumes "totals_present d"
  shows "\<exists>a. generateBudgetResponse E (generateBudgetSummary E d) t c = Inr a \<and> a \<noteq> []"
proof -
  have g: "\<not> (monthlyIncome_s (generateBudgetSummary E d) = Null \<or>
             monthlyExpenses_s (generateBudgetSummary E d) = Null \<or>
             monthlySavings (generateBudgetSummary E d) = Null \<or>
             (c = Detailed \<and>
              (totalBalance_s (generateBudgetSummary E d) = Null \<or>
               list_ex (\<lambda>(cat, amount). amount = Null)
                 (entries (categoryBreakdown (generateBudgetSummary E d))))))"
    using assms
    by (simp add: totals_present_def generateBudgetSummary_def Let_def num_sub_number
          no_null_amount)
  show ?thesis
    unfolding generateBudgetResponse_def Let_def
    apply (simp only: g if_False)
    apply (rule exI, rule conjI, rule refl)
    apply (simp only: append_is_Nil_conv list.distinct simp_thms split: if_split)
    done
qed

lemma specific_answer_returns:
  assumes "totals_present d"
  shows "\<exists>a. answerSpecificQuestion E um user d t c = Inr a"
  using assms unfolding answerSpecificQuestion_def Let_def totals_present_def
  by (simp only: if_False simp_thms split: if_split) blast

lemma general_response_nonempty:
  "generateGeneralResponse E um user d t c h \<noteq> []"
  unfolding generateGeneralResponse_def Let_def
  by (simp only: append_is_Nil_conv list.distinct simp_thms split: if_split)

lemma find_in_set: "find P xs = Some x \<Longrightarrow> x \<in> set xs"
  by (metis find_Some_iff nth_mem)

lemma handlers_return:
  assumes "totals_present d" and "th \<in> set (financialTerms E c)"
  shows "\<exists>a. snd th t c' user d = Inr a"
  using budget_response_returns [OF assms(1), of E t c] assms(2)
  unfolding financialTerms_def by auto

lemma after_terms_returns:
  assumes "totals_present d"
  shows "\<exists>a. answer_after_terms E um message user d t c = Inr a"
  using budget_response_returns [OF assms, of E t c]
  unfolding answer_after_terms_def by auto

lemma knowledge_base_returns:
  assumes "totals_present d"
  shows "\<exists>a. answerFinancialQuestion E um message user d t c fc = Inr a"
proof (cases "find (\<lambda>(term, h). includes_str message term) (financialTerms E c)")
  case (Some th)
  then have "th \<in> set (financialTerms E c)" by (rule find_in_set)
  then show ?thesis
    using handlers_return [OF assms] Some
    unfolding answerFinancialQuestion_def by (simp add: case_prod_beta)
next
  case None
  show ?thesis
  proof (cases "if is_explain_question message \<and> extractTopic E message \<noteq> []
                 then find (\<lambda>(term, h). includes_str (extractTopic E message) term \<or>
                                         includes_str term (extractTopic E message))
                        (financialTerms E c)
                 else None")
    case inner: None
    show ?thesis
      unfolding answerFinancialQuestion_def None inner
      using after_terms_returns [OF assms] by simp
  next
    case inner: (Some th)
    then have "th \<in> set (financialTerms E c)"
      by (auto dest: find_in_set split: if_splits)
    then show ?thesis
      unfolding answerFinancialQuestion_def None inner
      using handlers_return [OF assms] by (simp add: case_prod_beta)
  qed
qed

lemma knowledge_answer_nonempty:
  "content (knowledge_answer E um message user d t c h response) \<noteq> []"
  by (simp add: knowledge_answer_def general_response_nonempty)

lemma response_returns:
  assumes "totals_present (getFinancialData ls)"
  shows "\<exists>r. generateResponse E ls um h = Inr r \<and> content r \<noteq> []"
proof -
  obtain a where a: "answerSpecificQuestion E um (getCurrentUser ls) (getFinancialData ls)
      (fst (getDemographicTone (getCurrentUser ls))) (snd (getDemographicTone (getCurrentUser ls)))
      = Inr a"
    using specific_answer_returns [OF assms] by blast
  have b: "answerFinancialQuestion E um m (getCurrentUser ls) (getFinancialData ls)
      (fst (getDemographicTone (getCurrentUser ls))) (snd (getDemographicTone (getCurrentUser ls)))
      fc \<noteq> Inl x" for m fc x
    using knowledge_base_returns [OF assms, of E um m "getCurrentUser ls"] by (metis Inl_Inr_False)
  show ?thesis
    unfolding generateResponse_def getUserContext_def Let_def case_prod_beta fst_conv snd_conv
    by (simp add: a b knowledge_answer_nonempty split: sum.splits)
qed

lemma terms_keys: "map fst (financialTerms E c) = map fst (financialTerms sample_env Simple)"
  by (simp add: financialTerms_def)

lemma find_terms_None:
  assumes "list_all (\<lambda>k. \<not> includes_str m k) (map fst (financialTerms sample_env Simple))"
  shows "find (\<lambda>(term, h). includes_str m term) (financialTerms E c) = None"
proof -
  have "list_all (\<lambda>k. \<not> includes_str m k) (map fst (financialTerms E c))"
    using assms by (simp only: terms_keys [of E c])
  then show ?thesis
    by (auto simp add: find_None_iff list_all_iff)
qed









lemma unmatched_falls_through:
  assumes "\<not> isQuestion (trim (toLowerCase E um))"
    and "\<And>user d t c fc. answerFinancialQuestion E um (trim (toLowerCase E um)) user d t c fc = Inr []"
  shows "generateResponse E ls um h =
     Inr \<lparr> content = generateGeneralResponse E um (getCurrentUser ls) (getFinancialData ls)
                       (fst (getDemographicTone (getCurrentUser ls)))
                       (snd (getDemographicTone (getCurrentUser ls))) h,
           suggestions = Some [], budgetSummary = None, insights = None \<rparr>"
  unfolding generateResponse_def getUserContext_def Let_def case_prod_beta fst_conv snd_conv
  using assms by (simp add: knowledge_answer_def)




subsection \<open>A stored total that is not a number\<close>








subsection \<open>Term matching\<close>













section \<open>Properties of the Remote Assistant Adapter\<close>

lemma adapter_result:
  "hf_generateResponse E W ls um h =
     (case buildPrompt E um h (getCurrentUser ls) (getFinancialData ls)
             (fst (getDemographicTone (getCurrentUser ls)))
             (snd (getDemographicTone (getCurrentUser ls))) of
        Inl e \<Rightarrow> Inl e
      | Inr prompt \<Rightarrow>
          (case remote_text W prompt of
             Inr (Some aiResponse) \<Rightarrow>
               Inr \<lparr> content = aiResponse, suggestions = None,
                     budgetSummary = (if shouldGenerateBudgetSummary E um aiResponse
                                      then Some (hf_generateBudgetSummary E (getFinancialData ls))
                                      else None),
                     insights = (if shouldGenerateInsights E um aiResponse
                                 then Some (hf_generateSpendingInsights (getFinancialData ls))
                                 else None) \<rparr>
           | _ \<Rightarrow> generateResponse E ls um h))"
  unfolding hf_generateResponse_def getUserContext_def fallbackResponse_def Let_def
    case_prod_beta fst_conv snd_conv
  by (simp split: sum.splits option.splits)

lemma prompt_raises:
  "\<not> totals_present d \<Longrightarrow> buildPrompt E um h user d t c = Inl TypeError"
  unfolding buildPrompt_def totals_present_def by (simp only: de_Morgan_conj simp_thms if_True)

lemma prompt_returns:
  "buildPrompt E um h user d t c = Inr prompt \<Longrightarrow> totals_present d"
  using prompt_raises [of d E um h user t c] by auto

lemma adapter_raises:
  "\<not> totals_present (getFinancialData ls) \<Longrightarrow> hf_generateResponse E W ls um h = Inl TypeError"
  unfolding adapter_result by (simp add: prompt_raises)

lemma remote_text_failure:
  assumes "send_request W prompt = Inl e
         \<or> (\<exists>r. send_request W prompt = Inr r \<and>
              (\<not> ok r \<or> json r = None \<or>
               (\<exists>data. json r = Some data \<and>
                  ((\<exists>e1. get_prop data ''error'' = Inl e1) \<or>
                   (\<exists>v. get_prop data ''error'' = Inr v \<and> truthy_val v) \<or>
                   (\<exists>e2. extract_text data = Inl e2) \<or>
                   (\<exists>a. extract_text data = Inr a \<and> js_length (cleanup a) < 10)))))"
  shows "\<forall>text. remote_text W prompt \<noteq> Inr (Some text)"
  using assms unfolding remote_text_def
  by (auto split: sum.splits option.splits)

lemma empty_store_context:
  "getCurrentUser Map.empty = None"
  "getFinancialData Map.empty = defaultFinancialData"
  "getDemographicTone None = (Friendly, Moderate)"
  by (simp_all add: getCurrentUser_def getActiveUserId_def getFinancialData_def
        getUserScopedKey_def getDemographicTone_def)

lemma default_totals: "totals_present defaultFinancialData"
  by (simp add: totals_present_def defaultFinancialData_def)

lemma prompt_built:
  "totals_present d \<Longrightarrow> \<exists>prompt. buildPrompt E um h user d t c = Inr prompt"
  unfolding buildPrompt_def totals_present_def by (simp only: simp_thms if_False) blast

lemma sample_prompt_built:
  "buildPrompt sample_env ''thanks'' [] None defaultFinancialData Friendly Moderate
     = Inr sample_prompt"
proof -
  obtain p where p: "buildPrompt sample_env ''thanks'' [] None defaultFinancialData Friendly
      Moderate = Inr p"
    using prompt_built [OF default_totals] by blast
  show ?thesis unfolding sample_prompt_def p by simp
qed

lemma empty_store_prompt:
  "buildPrompt sample_env ''thanks'' [] (getCurrentUser Map.empty) (getFinancialData Map.empty)
     (fst (getDemographicTone (getCurrentUser Map.empty)))
     (snd (getDemographicTone (getCurrentUser Map.empty))) = Inr sample_prompt"
  by (simp add: empty_store_context sample_prompt_built)

lemma thanks_message:
  "trim (toLowerCase E ''thanks'') = ''thanks''" "trim ''thanks'' = ''thanks''"
  "toLowerCase E ''thanks'' = ''thanks''"
  "\<not> isQuestion ''thanks''"
  "\<not> includes_str ''thanks'' ''hello''" "\<not> includes_str ''thanks'' ''hi''"
  "\<not> includes_str ''thanks'' ''hey''" "includes_str ''thanks'' ''thank''"
  by code_simp+

lemma no_term_in_thanks:
  "list_all (\<lambda>k. \<not> includes_str ''thanks'' k) (map fst (financialTerms sample_env Simple))"
  by code_simp

lemma knowledge_base_thanks: "answerFinancialQuestion E um ''thanks'' user d t c fc = Inr []"
  unfolding answerFinancialQuestion_def find_terms_None [OF no_term_in_thanks]
  by (simp add: answer_after_terms_def is_explain_question_def)

lemma thanks_response:
  "generateResponse E ls ''thanks'' h =
     Inr \<lparr> content = ''You are welcome! I am here anytime you need financial advice. Is there anything else I can help you with?'',
           suggestions = Some [], budgetSummary = None, insights = None \<rparr>"
proof -
  have "generateGeneralResponse E ''thanks'' user d t c h
          = ''You are welcome! I am here anytime you need financial advice. Is there anything else I can help you with?''"
    for user d t c
    unfolding generateGeneralResponse_def Let_def
    by (simp only: thanks_message simp_thms if_True if_False) simp
  then show ?thesis
    using unmatched_falls_through [of E "''thanks''" ls h]
    by (simp only: thanks_message knowledge_base_thanks simp_thms)
qed

lemma unicode_samples:
  "trim (''Some advice.'' @ [CHR 0xC2, CHR 0xA0]) = ''Some advice.''"
  "trim ([CHR 0xEF, CHR 0xBB, CHR 0xBF] @ ''ok'' @ [CHR 0xE2, CHR 0x80, CHR 0xA8, CHR 0x0A]) = ''ok''"
  "js_length [CHR 0xC3, CHR 0xA9, CHR 0xC3, CHR 0xA9, CHR 0xC3, CHR 0xA9] = 3"
  "js_length [CHR 0xF0, CHR 0x9F, CHR 0x92, CHR 0xB0] = 2"
  "cleanup (trim (''Some advice. Assistant Response:'' @ [CHR 0xC2, CHR 0xA0]))
     = ''Some advice. Assistant Response:''"
  "js_length ''Some advice. Assistant Response:'' = 32"
  by code_simp+

lemma remote_503_requests:
  "send_request remote_503 p =
     Inr \<lparr> ok = True, status = 200,
           json = Some (JArr [JObj [(''generated_text'', JStr ''Save ten percent of income.'')]]) \<rparr>"
  by (simp add: send_request_def remote_503_def HF_API_URL_def HF_FALLBACK_URL_def)

lemma remote_503_text:
  "remote_text remote_503 p = Inr (Some ''Save ten percent of income.'')"
proof -
  have c: "cleanup (trim ''Save ten percent of income.'') = ''Save ten percent of income.''"
    by code_simp
  have l: "\<not> js_length ''Save ten percent of income.'' < 10"
    by code_simp
  show ?thesis
    unfolding remote_text_def remote_503_requests
    by (simp add: get_prop_def extract_text_def element0_def opt_prop_def truthy_val_def
          call_trim_def c l)
qed

text \<open>
  Claim C1 (any failure of the primary call gives the rule-based response) fails when
  the primary model answers 503: the alternate model is asked, and its text is returned
  instead of the rule-based response.
\<close>

theorem primary_503_alternate_answers:
  "fetch remote_503 \<lparr> url = HF_API_URL, authorization = None, inputs = sample_prompt,
                        max_new_tokens = 500 \<rparr>
     = Some \<lparr> ok = False, status = 503, json = None \<rparr> \<and>
   map_sum id content (hf_generateResponse sample_env remote_503 Map.empty ''thanks'' [])
     = Inr ''Save ten percent of income.'' \<and>
   map_sum id content (generateResponse sample_env Map.empty ''thanks'' [])
     = Inr ''You are welcome! I am here anytime you need financial advice. Is there anything else I can help you with?'' \<and>
   hf_generateResponse sample_env remote_503 Map.empty ''thanks'' []
     \<noteq> generateResponse sample_env Map.empty ''thanks'' []"
proof -
  have 1: "fetch remote_503 \<lparr> url = HF_API_URL, authorization = None, inputs = sample_prompt,
                        max_new_tokens = 500 \<rparr>
     = Some \<lparr> ok = False, status = 503, json = None \<rparr>"
    by (simp add: remote_503_def)
  have 2: "map_sum id content (hf_generateResponse sample_env remote_503 Map.empty ''thanks'' [])
     = Inr ''Save ten percent of income.''"
    unfolding adapter_result empty_store_prompt remote_503_text by simp
  have 3: "map_sum id content (generateResponse sample_env Map.empty ''thanks'' [])
     = Inr ''You are welcome! I am here anytime you need financial advice. Is there anything else I can help you with?''"
    unfolding thanks_response by simp
  have "map_sum id content (hf_generateResponse sample_env remote_503 Map.empty ''thanks'' [])
     \<noteq> map_sum id content (generateResponse sample_env Map.empty ''thanks'' [])"
    unfolding 2 3 by simp
  then have 4: "hf_generateResponse sample_env remote_503 Map.empty ''thanks'' []
     \<noteq> generateResponse sample_env Map.empty ''thanks'' []"
    by auto
  from 1 2 3 4 show ?thesis by (simp only: simp_thms)
qed

text \<open>
  Claim C1 as amended. Let the store be typed with the three totals of the financial
  data present, so that the prompt is built, and let the response be the one that is
  finally examined: the primary model's, or the alternate model's when the primary model
  answered 503. When the request fails in any of these ways (\<open>fetch\<close> rejects; the
  response is not ok; the body is not JSON; reading its \<open>error\<close> field raises or the
  field is truthy; no text can be taken from it or taking it raises; the cleaned text has
  fewer than 10 code units), the adapter returns exactly what the rule-based service
  returns for the same message and history, and that is a response with a content, not
  an exception. (With a total that is \<open>null\<close> the prompt cannot be built and the adapter
  raises before it asks the remote model, see \<open>adapter_raises\<close>.)
\<close>

theorem adapter_falls_back:
  assumes "typed_store ls"
    and "buildPrompt E um h (getCurrentUser ls) (getFinancialData ls)
           (fst (getDemographicTone (getCurrentUser ls)))
           (snd (getDemographicTone (getCurrentUser ls))) = Inr prompt"
    and "send_request W prompt = Inl e
         \<or> (\<exists>r. send_request W prompt = Inr r \<and>
              (\<not> ok r \<or> json r = None \<or>
               (\<exists>data. json r = Some data \<and>
                  ((\<exists>e1. get_prop data ''error'' = Inl e1) \<or>
                   (\<exists>v. get_prop data ''error'' = Inr v \<and> truthy_val v) \<or>
                   (\<exists>e2. extract_text data = Inl e2) \<or>
                   (\<exists>a. extract_text data = Inr a \<and> js_length (cleanup a) < 10)))))"
  shows "hf_generateResponse E W ls um h = generateResponse E ls um h
    \<and> (\<exists>r. hf_generateResponse E W ls um h = Inr r \<and> content r \<noteq> [])"
proof -
  have "\<forall>text. remote_text W prompt \<noteq> Inr (Some text)"
    using assms(3) by (rule remote_text_failure)
  then have eq: "hf_generateResponse E W ls um h = generateResponse E ls um h"
    unfolding adapter_result assms(2)
    by (auto split: sum.splits option.splits)
  have "totals_present (getFinancialData ls)"
    using assms(2) by (rule prompt_returns)
  then show ?thesis
    using response_returns [of ls E um h] eq by simp
qed

theorem adapter_falls_back_witness:
  "typed_store Map.empty \<and>
   buildPrompt sample_env ''thanks'' [] (getCurrentUser Map.empty) (getFinancialData Map.empty)
     (fst (getDemographicTone (getCurrentUser Map.empty)))
     (snd (getDemographicTone (getCurrentUser Map.empty))) = Inr sample_prompt \<and>
   send_request remote_500 sample_prompt = Inr \<lparr> ok = False, status = 500, json = None \<rparr> \<and>
   hf_generateResponse sample_env remote_500 Map.empty ''thanks'' []
     = generateResponse sample_env Map.empty ''thanks'' [] \<and>
   \<not> isl (hf_generateResponse sample_env remote_500 Map.empty ''thanks'' []) \<and>
   content (projr (hf_generateResponse sample_env remote_500 Map.empty ''thanks'' [])) \<noteq> []"
proof -
  have t: "typed_store Map.empty"
    by (simp add: typed_store_def)
  have s: "send_request remote_500 sample_prompt = Inr \<lparr> ok = False, status = 500, json = None \<rparr>"
    by (simp add: send_request_def remote_500_def)
  then have f: "send_request remote_500 sample_prompt = Inl NetworkError
         \<or> (\<exists>r. send_request remote_500 sample_prompt = Inr r \<and>
              (\<not> ok r \<or> json r = None \<or>
               (\<exists>data. json r = Some data \<and>
                  ((\<exists>e1. get_prop data ''error'' = Inl e1) \<or>
                   (\<exists>v. get_prop data ''error'' = Inr v \<and> truthy_val v) \<or>
                   (\<exists>e2. extract_text data = Inl e2) \<or>
                   (\<exists>a. extract_text data = Inr a \<and> js_length (cleanup a) < 10)))))"
    by simp
  note inst = adapter_falls_back [OF t empty_store_prompt f]
  from inst obtain r
    where r: "hf_generateResponse sample_env remote_500 Map.empty ''thanks'' [] = Inr r"
      and c: "content r \<noteq> []"
    by blast
  from inst have eq: "hf_generateResponse sample_env remote_500 Map.empty ''thanks'' []
      = generateResponse sample_env Map.empty ''thanks'' []"
    by (rule conjunct1)
  have 1: "\<not> isl (hf_generateResponse sample_env remote_500 Map.empty ''thanks'' [])"
    unfolding r by simp
  have 2: "content (projr (hf_generateResponse sample_env remote_500 Map.empty ''thanks'' []))
      \<noteq> []"
    unfolding r using c by simp
  from t empty_store_prompt s eq 1 2 show ?thesis by (intro conjI)
qed

lemma adapter_success:
  assumes "buildPrompt E um h (getCurrentUser ls) (getFinancialData ls)
             (fst (getDemographicTone (getCurrentUser ls)))
             (snd (getDemographicTone (getCurrentUser ls))) = Inr prompt"
    and "send_request W prompt = Inr r" and "ok r" and "json r = Some data"
    and "get_prop data ''error'' = Inr v" and "\<not> truthy_val v"
    and "extract_text data = Inr a" and "10 \<le> js_length (cleanup a)"
  shows "map_sum id content (hf_generateResponse E W ls um h) = Inr (cleanup a)"
    and "map_sum id suggestions (hf_generateResponse E W ls um h) = Inr None"
proof -
  have n: "cleanup a \<noteq> []" using assms(8) by (auto simp add: js_length_def)
  have "remote_text W prompt = Inr (Some (cleanup a))"
    using assms(2-8) n unfolding remote_text_def by auto
  then show "map_sum id content (hf_generateResponse E W ls um h) = Inr (cleanup a)"
    and "map_sum id suggestions (hf_generateResponse E W ls um h) = Inr None"
    unfolding adapter_result assms(1) by simp_all
qed

end
